theory Spec2Isabelle
  imports Main
begin

section \<open>The notebook \<open>examples/1.0.0/Process_the_Gene_Ontology.ipynb\<close>\<close>

text \<open>
  The notebook is a Python 2 script of fifteen code cells. It calls the libraries
  \<open>requests\<close>, \<open>gzip\<close>, \<open>pandas\<close>, \<open>ddot\<close> and \<open>mygene\<close>; none of them is part of the
  sources, so every library function is a field of the record \<open>library\<close> below and the
  notebook is embedded as a function of that record. The outside world (the file system,
  the NDEx server, the terminal, the processes of the machine) is the type parameter
  \<open>'w\<close>: the notebook never looks into it, only the library functions do. What a library
  function does inside its call (that \<open>collapse_ontology\<close> runs an external program, as the
  output stored with cell 6 shows, is an example) is therefore not part of the embedding.
\<close>

subsection \<open>Data\<close>

text \<open>
  An ontology, with the six components its printed form shows:
  \<^verbatim>\<open>19737 genes, 45018 terms, 277105 gene-term relations, 92880 term-term relations
node_attributes: []
edge_attributes: []\<close>
  \<open>go_human.genes\<close> and \<open>go_human.terms\<close> are Python lists of names.
\<close>

type_synonym bytes = string
type_synonym table = "string list list"

record ontology =
  genes :: "string list"
  terms :: "string list"
  gene_2_term :: "(string \<times> string) list"
  term_2_term :: "(string \<times> string) list"
  node_attributes :: "(string \<times> (string \<times> string) list) list"
  edge_attributes :: "(string \<times> ((string \<times> string) \<times> string) list) list"

datatype module = Requests | Gzip | Pandas | Networkx | Sys | Ddot | Mygene

datatype error = Library_error string | ImportError | TypeError | KeyError | ValueError

text \<open>The two identifier kinds the notebook translates to, and the three variants it uploads.\<close>

datatype target = Symbol | Entrez

datatype variant = UniProt | Mapped target

text \<open>
  What the helper \<open>f\<close> returns for one group of hits: \<open>x[0]\<close>, a single value, or
  \<open>x.tolist()\<close>, a list of values.
\<close>

datatype 'a picked = Scalar 'a | Listed "'a list"

text \<open>
  The data frame of \<open>mg.querymany(..., fields=..., as_dataframe=True)\<close>: one row per hit,
  with the query and the value of the requested field, which is NaN (\<open>None\<close>) where the
  hit has none. The value is kept as the text the service sent; \<open>astype(int)\<close>, a
  function of the library, is what reads a number from it. The series that
  \<open>groupby('query').apply(f)\<close> returns: one entry per query.
\<close>

type_synonym hits = "(string \<times> string option) list"
type_synonym series = "(string \<times> string picked) list"

text \<open>What \<open>print\<close> or the cell's output area is given.\<close>

datatype shown = Shown_ontology ontology | Shown_text string

text \<open>The Python variable \<open>f\<close> is bound four times: twice by \<open>with ... as f\<close> and twice by \<open>def f\<close>.\<close>

datatype fval = File_object string | Helper target

subsection \<open>The libraries\<close>

text \<open>
  A library call reads and changes the world, and either returns a value or raises.
  The record has one field for each function the notebook calls, with the arguments the
  notebook passes (keyword arguments that are the same at every call are left out where
  noted at the call): \<open>requests.get\<close>; the builtin \<open>open(...).write\<close>; \<open>gzip.open\<close>;
  \<open>pd.read_table\<close> and \<open>astype(int)\<close> of pandas; \<open>mygene.MyGeneInfo\<close> and its
  \<open>querymany\<close>; the builtin \<open>print\<close>; IPython's shell escape \<open>!\<close>, which raises nothing
  whatever the command returns, and its magic \<open>%time\<close>, which reports the times of a
  statement that has returned; and of ddot \<open>parse_obo\<close>, \<open>parse_gaf\<close>,
  \<open>Ontology.from_table\<close> and the methods of an ontology. A method that changes its
  ontology in place (\<open>clear_node_attr\<close>, \<open>clear_edge_attr\<close>, \<open>update_node_attr\<close>, and
  \<open>add_root\<close> with \<open>inplace=True\<close>) returns the changed ontology here, and is taken to
  leave the ontology as it found it when it raises. The methods whose
  result the notebook assigns (\<open>collapse_ontology\<close>, \<open>copy\<close>, \<open>delete\<close>, \<open>rename\<close>) are
  called without \<open>inplace\<close> and are taken to leave their ontology as it is.
\<close>

type_synonym ('w, 'a) call = "'w \<Rightarrow> (error + 'a) \<times> 'w"

record 'w library =
  import_module :: "module \<Rightarrow> ('w, unit) call"
  requests_get :: "string \<Rightarrow> ('w, bytes) call"
  file_write :: "string \<Rightarrow> bytes \<Rightarrow> ('w, unit) call"
  parse_obo :: "string \<Rightarrow> string \<Rightarrow> string \<Rightarrow> string \<Rightarrow> string \<Rightarrow> ('w, unit) call"
  read_table :: "string \<Rightarrow> string list \<Rightarrow> ('w, table) call"
  gzip_open :: "string \<Rightarrow> ('w, bytes) call"
  parse_gaf :: "bytes \<Rightarrow> ('w, table) call"
  from_table :: "table \<Rightarrow> string \<Rightarrow> string \<Rightarrow> table \<Rightarrow> string \<Rightarrow> string \<Rightarrow> string \<Rightarrow> bool
    \<Rightarrow> ('w, ontology) call"
  clear_node_attr :: "ontology \<Rightarrow> ('w, ontology) call"
  clear_edge_attr :: "ontology \<Rightarrow> ('w, ontology) call"
  collapse_ontology :: "string \<Rightarrow> ontology \<Rightarrow> ('w, ontology) call"
  add_root :: "string \<Rightarrow> ontology \<Rightarrow> ('w, ontology) call"
  update_node_attr :: "table \<Rightarrow> ontology \<Rightarrow> ('w, ontology) call"
  shell :: "string \<Rightarrow> 'w \<Rightarrow> 'w"
  time_magic :: "'w \<Rightarrow> 'w"
  MyGeneInfo :: "('w, unit) call"
  querymany :: "string list \<Rightarrow> string \<Rightarrow> string \<Rightarrow> string \<Rightarrow> ('w, hits) call"
  astype_int :: "string \<Rightarrow> int option"
  copy :: "ontology \<Rightarrow> ('w, ontology) call"
  delete :: "string set \<Rightarrow> ontology \<Rightarrow> ('w, ontology) call"
  rename :: "(string \<rightharpoonup> string picked) \<Rightarrow> ontology \<Rightarrow> ('w, ontology) call"
  to_table :: "string \<Rightarrow> bool \<Rightarrow> ontology \<Rightarrow> ('w, unit) call"
  to_pickle :: "string \<Rightarrow> ontology \<Rightarrow> ('w, unit) call"
  to_ndex :: "string \<Rightarrow> string \<Rightarrow> string \<Rightarrow> string \<Rightarrow> string \<Rightarrow> ontology \<Rightarrow> ('w, string) call"
  print_out :: "shown \<Rightarrow> ('w, unit) call"

subsection \<open>The statements\<close>

text \<open>One constructor for each statement of the notebook; the statements that occur once
  for each variant take the variant as argument.\<close>

datatype stmt =
    Import module
  | From_import module string
  | Assign_ndex_server
  | Assign_ndex_account
  | Requests_get string
  | Write_r_content string
  | Parse_obo
  | Read_hierarchy
  | Parse_gaf
  | From_table
  | Clear_node_attr
  | Clear_edge_attr
  | Display_go_human
  | Collapse_ontology
  | Guard_add_root
  | Print_go_human
  | Read_go_descriptions
  | Update_go_descriptions
  | Read_go_branches
  | Update_go_branches
  | Pip_install_mygene
  | New_MyGeneInfo
  | Assign_name
  | Copy_go_human
  | To_table variant
  | To_pickle variant
  | To_ndex variant
  | Print_url variant
  | Querymany target
  | Def_f target
  | Groupby_apply target
  | Delete_unmapped target
  | Rename target
  | Print_mapped target

subsection \<open>The state of a run\<close>

text \<open>
  The world and the notebook's variables.
  \<open>uniprot_2_df\<close> stands for the two variables \<open>uniprot_2_symbol_df\<close> and
  \<open>uniprot_2_entrezgene_df\<close>, \<open>uniprot_2\<close> for \<open>uniprot_2_symbol\<close> and
  \<open>uniprot_2_entrezgene\<close>, \<open>go_human_mapped\<close> for \<open>go_human_symbol\<close> and
  \<open>go_human_entrez\<close>. The variables \<open>r\<close>, \<open>f\<close>, \<open>name\<close> and \<open>url\<close> carry the prefix
  \<open>var\<close>. The variables \<open>mg\<close> (a client object without fields of interest) and \<open>G\<close>
  (assigned three times, never read) are not kept.
\<close>

record 'w state =
  world :: 'w
  ndex_server :: string
  ndex_user :: string
  ndex_pass :: string
  var_r :: bytes
  var_f :: fval
  hierarchy :: table
  mapping :: table
  go_human :: ontology
  go_descriptions :: table
  go_branches :: table
  var_name :: string
  go_human_uniprot :: ontology
  var_url :: string
  uniprot_2_df :: "target \<Rightarrow> hits"
  uniprot_2 :: "target \<Rightarrow> series"
  go_human_mapped :: "target \<Rightarrow> ontology"

subsection \<open>The helper \<open>f\<close> and the pandas pipeline around it\<close>

text \<open>
  Python's \<open>str\<close> of an integer: decimal digits, a leading minus sign for a negative one.
\<close>

definition digit_char :: "nat \<Rightarrow> char" where
  "digit_char d = ''0123456789'' ! d"

fun str_nat :: "nat \<Rightarrow> string" where
  "str_nat n = (if n < 10 then [digit_char n] else str_nat (n div 10) @ [digit_char (n mod 10)])"

declare str_nat.simps [simp del]

definition str_int :: "int \<Rightarrow> string" where
  "str_int i = (if i < 0 then CHR ''-'' # str_nat (nat (- i)) else str_nat (nat i))"

text \<open>
  Cell 12:
  \<^verbatim>\<open>def f(x):
    x = x['symbol']
    if len(x)==1:
        return x[0]
    else:
        return x.tolist()\<close>
  The argument is the column of one group; its index holds the query strings, so \<open>x[0]\<close>
  is the first element by position.
\<close>

definition f_symbol :: "'a list \<Rightarrow> 'a picked" where
  "f_symbol x = (if length x = 1 then Scalar (x ! 0) else Listed x)"

text \<open>
  Cell 14:
  \<^verbatim>\<open>def f(x):
    x = x['entrezgene'].astype(int).astype(str)
    if len(x)==1:
        return x[0]
    else:
        return x.tolist()\<close>
  \<open>astype(int)\<close> is the library's conversion; it raises when a value is no number.
\<close>

fun astype :: "('a \<Rightarrow> 'b option) \<Rightarrow> 'a list \<Rightarrow> error + 'b list" where
  "astype conv [] = Inr []"
| "astype conv (v # vs) =
     (case conv v of
        None \<Rightarrow> Inl ValueError
      | Some i \<Rightarrow> (case astype conv vs of Inl e \<Rightarrow> Inl e | Inr ns \<Rightarrow> Inr (i # ns)))"

definition f_entrezgene :: "(string \<Rightarrow> int option) \<Rightarrow> string list \<Rightarrow> error + string picked" where
  "f_entrezgene to_int x =
     (case astype to_int x of
        Inl e \<Rightarrow> Inl e
      | Inr ns \<Rightarrow>
          (let x = map str_int ns
           in if length x = 1 then Inr (Scalar (x ! 0)) else Inr (Listed x)))"

text \<open>The function bound to \<open>f\<close> by \<open>Def_f t\<close>.\<close>

fun helper :: "'w library \<Rightarrow> target \<Rightarrow> string list \<Rightarrow> error + string picked" where
  "helper L Symbol x = Inr (f_symbol x)"
| "helper L Entrez x = f_entrezgene (astype_int L) x"

text \<open>
  \<open>df.dropna(subset=[field])\<close> drops the rows whose field is NaN; the frame has a column
  for the field only when some hit carries it, and \<open>dropna\<close> raises KeyError for a column
  the frame does not have. \<open>groupby('query')\<close> collects the rows of each query;
  \<open>apply(f)\<close> calls \<open>f\<close> on each group and raises what \<open>f\<close> raises. pandas orders the
  groups by key; the series is read only through \<open>keys()\<close> and \<open>to_dict()\<close>, and the
  groups are kept here in order of first occurrence.
\<close>

definition dropna :: "hits \<Rightarrow> error + (string \<times> string) list" where
  "dropna df =
     (if list_all (\<lambda>(q, v). v = None) df then Inl KeyError
      else Inr (concat (map (\<lambda>(q, v). case v of None \<Rightarrow> [] | Some a \<Rightarrow> [(q, a)]) df)))"

definition groupby :: "(string \<times> string) list \<Rightarrow> (string \<times> string list) list" where
  "groupby rows = map (\<lambda>q. (q, map snd (filter (\<lambda>row. fst row = q) rows))) (remdups (map fst rows))"

fun apply_f :: "(string list \<Rightarrow> error + string picked) \<Rightarrow> (string \<times> string list) list
    \<Rightarrow> error + series" where
  "apply_f g [] = Inr []"
| "apply_f g ((q, x) # groups) =
     (case g x of
        Inl e \<Rightarrow> Inl e
      | Inr y \<Rightarrow> (case apply_f g groups of Inl e \<Rightarrow> Inl e | Inr ys \<Rightarrow> Inr ((q, y) # ys)))"

definition keys :: "series \<Rightarrow> string list" where
  "keys ser = map fst ser"

definition to_dict :: "series \<Rightarrow> (string \<rightharpoonup> string picked)" where
  "to_dict ser = map_of ser"

subsection \<open>Executing a statement\<close>

text \<open>
  A statement takes the state to a new state and may raise. \<open>invoke\<close> calls a library
  function on the world: when the call raises, the statement raises the same error, with
  the world as the call left it; when it returns, the result is stored. The notebook
  has no \<open>try\<close>, so there is no other way to treat an error.

  In \<open>exec\<close>: the value of the last expression of cell 5, \<open>go_human\<close>, goes to the cell's
  output as a \<open>print\<close> would send it; \<open>%time\<close> before the collapse reports the times once
  the statement has returned, and lets an exception of the statement pass (the IPython
  of the notebook's Python 2 kernel); \<open>to_ndex\<close> is also passed \<open>layout=None\<close>, and of the
  pair it returns the notebook reads only the URL.
\<close>

definition invoke :: "('w, 'a) call \<Rightarrow> ('a \<Rightarrow> 'w state \<Rightarrow> 'w state) \<Rightarrow> 'w state
    \<Rightarrow> error option \<times> 'w state" where
  "invoke c store s =
     (case c (world s) of
        (Inl e, w) \<Rightarrow> (Some e, s\<lparr>world := w\<rparr>)
      | (Inr v, w) \<Rightarrow> (None, store v (s\<lparr>world := w\<rparr>)))"

fun suffix :: "variant \<Rightarrow> string" where
  "suffix UniProt = ''uniprot''"
| "suffix (Mapped Symbol) = ''symbol''"
| "suffix (Mapped Entrez) = ''entrez''"

fun label :: "variant \<Rightarrow> string" where
  "label UniProt = ''UniProt''"
| "label (Mapped Symbol) = ''Symbol''"
| "label (Mapped Entrez) = ''Entrez''"

fun field :: "target \<Rightarrow> string" where
  "field Symbol = ''symbol''"
| "field Entrez = ''entrezgene''"

fun ontology_of :: "'w state \<Rightarrow> variant \<Rightarrow> ontology" where
  "ontology_of s UniProt = go_human_uniprot s"
| "ontology_of s (Mapped t) = go_human_mapped s t"

text \<open>
  Calling whatever is bound to \<open>f\<close> on the column of a group of the data frame for \<open>t\<close>:
  a file object is not callable, and the helper of the other target indexes a column the
  frame does not have.
\<close>

fun call_f :: "'w library \<Rightarrow> fval \<Rightarrow> target \<Rightarrow> string list \<Rightarrow> error + string picked" where
  "call_f L (File_object p) t x = Inl TypeError"
| "call_f L (Helper t') t x = (if t' = t then helper L t' x else Inl KeyError)"

definition set_go_human :: "ontology \<Rightarrow> 'w state \<Rightarrow> 'w state" where
  "set_go_human ont s = s\<lparr>go_human := ont\<rparr>"

definition set_go_human_mapped :: "target \<Rightarrow> ontology \<Rightarrow> 'w state \<Rightarrow> 'w state" where
  "set_go_human_mapped t ont s = s\<lparr>go_human_mapped := (go_human_mapped s)(t := ont)\<rparr>"

definition unchanged :: "unit \<Rightarrow> 'w state \<Rightarrow> 'w state" where
  "unchanged u s = s"

text \<open>
  The arguments of \<open>go_human.delete(to_delete=set(go_human.genes) - set(uniprot_2_symbol.keys()))\<close>
  and of \<open>go_human_symbol.rename(genes=uniprot_2_symbol.to_dict())\<close>.
\<close>

definition to_delete :: "'w state \<Rightarrow> target \<Rightarrow> string set" where
  "to_delete s t = set (genes (go_human s)) - set (keys (uniprot_2 s t))"

fun exec :: "'w library \<Rightarrow> stmt \<Rightarrow> 'w state \<Rightarrow> error option \<times> 'w state" where
  "exec L (Import m) s = invoke (import_module L m) unchanged s"
| "exec L (From_import m n) s = invoke (import_module L m) unchanged s"
| "exec L Assign_ndex_server s = (None, s\<lparr>ndex_server := ''http://test.ndexbio.org''\<rparr>)"
| "exec L Assign_ndex_account s =
     (None, s\<lparr>ndex_user := ''<enter your username>'',
               ndex_pass := ''<enter your account password>''\<rparr>)"
| "exec L (Requests_get u) s = invoke (requests_get L u) (\<lambda>b s. s\<lparr>var_r := b\<rparr>) s"
| "exec L (Write_r_content p) s =
     invoke (file_write L p (var_r s)) (\<lambda>u s. s\<lparr>var_f := File_object p\<rparr>) s"
| "exec L Parse_obo s =
     invoke (parse_obo L ''go-basic.obo'' ''go.tab'' ''goID_2_name.tab'' ''goID_2_namespace.tab''
        ''goID_2_alt_id.tab'') unchanged s"
| "exec L Read_hierarchy s =
     invoke (read_table L ''go.tab'' [''Parent'', ''Child'', ''Relation'', ''Namespace''])
       (\<lambda>t s. s\<lparr>hierarchy := t\<rparr>) s"
| "exec L Parse_gaf s =
     (case gzip_open L ''goa_human.gaf.gz'' (world s) of
        (Inl e, w) \<Rightarrow> (Some e, s\<lparr>world := w\<rparr>)
      | (Inr b, w) \<Rightarrow>
          invoke (parse_gaf L b) (\<lambda>t s. s\<lparr>mapping := t\<rparr>)
            (s\<lparr>world := w, var_f := File_object ''goa_human.gaf.gz''\<rparr>))"
| "exec L From_table s =
     invoke (from_table L (hierarchy s) ''Parent'' ''Child'' (mapping s) ''DB Object ID'' ''GO ID''
        ''GO:00SUPER'' True) set_go_human s"
| "exec L Clear_node_attr s = invoke (clear_node_attr L (go_human s)) set_go_human s"
| "exec L Clear_edge_attr s = invoke (clear_edge_attr L (go_human s)) set_go_human s"
| "exec L Display_go_human s = invoke (print_out L (Shown_ontology (go_human s))) unchanged s"
| "exec L Collapse_ontology s =
     (case invoke (collapse_ontology L ''mhkramer'' (go_human s)) set_go_human s of
        (Some e, s') \<Rightarrow> (Some e, s')
      | (None, s') \<Rightarrow> (None, s'\<lparr>world := time_magic L (world s')\<rparr>))"
| "exec L Guard_add_root s =
     (if ''GO:00SUPER'' \<notin> set (terms (go_human s))
      then invoke (add_root L ''GO:00SUPER'' (go_human s)) set_go_human s
      else (None, s))"
| "exec L Print_go_human s = invoke (print_out L (Shown_ontology (go_human s))) unchanged s"
| "exec L Read_go_descriptions s =
     invoke (read_table L ''goID_2_name.tab'' [''Term'', ''Term_Description''])
       (\<lambda>t s. s\<lparr>go_descriptions := t\<rparr>) s"
| "exec L Update_go_descriptions s =
     invoke (update_node_attr L (go_descriptions s) (go_human s)) set_go_human s"
| "exec L Read_go_branches s =
     invoke (read_table L ''goID_2_namespace.tab'' [''Term'', ''Branch''])
       (\<lambda>t s. s\<lparr>go_branches := t\<rparr>) s"
| "exec L Update_go_branches s =
     invoke (update_node_attr L (go_branches s) (go_human s)) set_go_human s"
| "exec L Pip_install_mygene s = (None, s\<lparr>world := shell L ''pip install mygene'' (world s)\<rparr>)"
| "exec L New_MyGeneInfo s = invoke (MyGeneInfo L) unchanged s"
| "exec L Assign_name s = (None, s\<lparr>var_name := ''Human-specific Gene Ontology''\<rparr>)"
| "exec L Copy_go_human s =
     invoke (copy L (go_human s)) (\<lambda>ont s. s\<lparr>go_human_uniprot := ont\<rparr>) s"
| "exec L (To_table v) s =
     invoke (to_table L (''collapsed_go.'' @ suffix v) True (ontology_of s v)) unchanged s"
| "exec L (To_pickle v) s =
     invoke (to_pickle L (''collapsed_go.'' @ suffix v @ ''.pkl'') (ontology_of s v)) unchanged s"
| "exec L (To_ndex v) s =
     invoke (to_ndex L (var_name s @ '', '' @ label v) (ndex_server s) (ndex_user s) (ndex_pass s)
        ''PUBLIC'' (ontology_of s v)) (\<lambda>u s. s\<lparr>var_url := u\<rparr>) s"
| "exec L (Print_url v) s = invoke (print_out L (Shown_text (var_url s))) unchanged s"
| "exec L (Querymany t) s =
     invoke (querymany L (genes (go_human s)) ''uniprot'' (field t) ''human'')
       (\<lambda>df s. s\<lparr>uniprot_2_df := (uniprot_2_df s)(t := df)\<rparr>) s"
| "exec L (Def_f t) s = (None, s\<lparr>var_f := Helper t\<rparr>)"
| "exec L (Groupby_apply t) s =
     (case dropna (uniprot_2_df s t) of
        Inl e \<Rightarrow> (Some e, s)
      | Inr rows \<Rightarrow>
          (case apply_f (call_f L (var_f s) t) (groupby rows) of
             Inl e \<Rightarrow> (Some e, s)
           | Inr ser \<Rightarrow> (None, s\<lparr>uniprot_2 := (uniprot_2 s)(t := ser)\<rparr>)))"
| "exec L (Delete_unmapped t) s =
     invoke (delete L (to_delete s t) (go_human s)) (set_go_human_mapped t) s"
| "exec L (Rename t) s =
     invoke (rename L (to_dict (uniprot_2 s t)) (go_human_mapped s t)) (set_go_human_mapped t) s"
| "exec L (Print_mapped t) s =
     invoke (print_out L (Shown_ontology (go_human_mapped s t))) unchanged s"

subsection \<open>The cells\<close>

definition cell1 :: "stmt list" where
  "cell1 = [Import Requests, Import Gzip, Import Pandas, Import Networkx, Import Sys,
            Import Ddot, From_import Ddot ''Ontology'']"

definition cell2 :: "stmt list" where
  "cell2 = [Assign_ndex_server, Assign_ndex_account]"

definition cell3 :: "stmt list" where
  "cell3 = [Requests_get ''http://purl.obolibrary.org/obo/go/go-basic.obo'',
            Write_r_content ''go-basic.obo'',
            Parse_obo,
            Requests_get ''http://geneontology.org/gene-associations/goa_human.gaf.gz'',
            Write_r_content ''goa_human.gaf.gz'']"

definition cell4 :: "stmt list" where
  "cell4 = [Read_hierarchy, Parse_gaf]"

definition cell5 :: "stmt list" where
  "cell5 = [From_table, Clear_node_attr, Clear_edge_attr, Display_go_human]"

definition cell6 :: "stmt list" where
  "cell6 = [Collapse_ontology, Guard_add_root, Print_go_human]"

definition cell7 :: "stmt list" where
  "cell7 = [Read_go_descriptions, Update_go_descriptions, Read_go_branches, Update_go_branches]"

definition cell8 :: "stmt list" where
  "cell8 = [Pip_install_mygene]"

definition cell9 :: "stmt list" where
  "cell9 = [Import Mygene, New_MyGeneInfo]"

definition cell10 :: "stmt list" where
  "cell10 = [Assign_name]"

definition cell11 :: "stmt list" where
  "cell11 = [Copy_go_human, To_table UniProt, To_pickle UniProt, To_ndex UniProt, Print_url UniProt]"

text \<open>Cells 12 and 14 (\<open>t\<close> is \<open>Symbol\<close>, then \<open>Entrez\<close>), and cells 13 and 15.\<close>

definition cell_query :: "target \<Rightarrow> stmt list" where
  "cell_query t = [Querymany t, Def_f t, Groupby_apply t]"

definition cell_upload :: "target \<Rightarrow> stmt list" where
  "cell_upload t = [Delete_unmapped t, Rename t, Print_mapped t, To_table (Mapped t),
                    To_pickle (Mapped t), To_ndex (Mapped t), Print_url (Mapped t)]"

definition notebook :: "stmt list list" where
  "notebook = [cell1, cell2, cell3, cell4, cell5, cell6, cell7, cell8, cell9, cell10, cell11,
               cell_query Symbol, cell_upload Symbol, cell_query Entrez, cell_upload Entrez]"

definition program :: "stmt list" where
  "program = concat notebook"

subsection \<open>Running the notebook\<close>

text \<open>
  The statements run one after the other; a statement that raises ends the run, with the
  error and the state at that moment.
\<close>

fun run :: "'w library \<Rightarrow> stmt list \<Rightarrow> 'w state \<Rightarrow> error option \<times> 'w state" where
  "run L [] s = (None, s)"
| "run L (c # cs) s =
     (case exec L c s of
        (Some e, s') \<Rightarrow> (Some e, s')
      | (None, s') \<Rightarrow> run L cs s')"

subsection \<open>Where a statement stands and what form it has\<close>


text \<open>
  The form of each statement: an \<open>import\<close>; an assignment of string literals; a call of
  a library function, with or without an assignment of its result; a
  \<open>with open(...) as f\<close> block that writes or reads a file; a \<open>print\<close>; an expression
  at the end of a cell, whose value the notebook displays; a \<open>!\<close> line, which IPython hands to
  the system shell; a \<open>def\<close>; an \<open>if\<close>.
\<close>

datatype form = Import_statement | Literal_assignment | Library_call | File_block | Print_statement
  | Displayed_expression | Shell_escape | Function_definition | If_statement

fun form_of :: "stmt \<Rightarrow> form" where
  "form_of (Import m) = Import_statement"
| "form_of (From_import m n) = Import_statement"
| "form_of Assign_ndex_server = Literal_assignment"
| "form_of Assign_ndex_account = Literal_assignment"
| "form_of (Requests_get u) = Library_call"
| "form_of (Write_r_content p) = File_block"
| "form_of Parse_obo = Library_call"
| "form_of Read_hierarchy = Library_call"
| "form_of Parse_gaf = File_block"
| "form_of From_table = Library_call"
| "form_of Clear_node_attr = Library_call"
| "form_of Clear_edge_attr = Library_call"
| "form_of Display_go_human = Displayed_expression"
| "form_of Collapse_ontology = Library_call"
| "form_of Guard_add_root = If_statement"
| "form_of Print_go_human = Print_statement"
| "form_of Read_go_descriptions = Library_call"
| "form_of Update_go_descriptions = Library_call"
| "form_of Read_go_branches = Library_call"
| "form_of Update_go_branches = Library_call"
| "form_of Pip_install_mygene = Shell_escape"
| "form_of New_MyGeneInfo = Library_call"
| "form_of Assign_name = Literal_assignment"
| "form_of Copy_go_human = Library_call"
| "form_of (To_table v) = Library_call"
| "form_of (To_pickle v) = Library_call"
| "form_of (To_ndex v) = Library_call"
| "form_of (Print_url v) = Print_statement"
| "form_of (Querymany t) = Library_call"
| "form_of (Def_f t) = Function_definition"
| "form_of (Groupby_apply t) = Library_call"
| "form_of (Delete_unmapped t) = Library_call"
| "form_of (Rename t) = Library_call"
| "form_of (Print_mapped t) = Print_statement"


subsection \<open>Recording the library calls\<close>

text \<open>
  To say which library functions a run calls, in which order and with which outcome, a
  library is wrapped: \<open>recording L\<close> does what \<open>L\<close> does and enters every call into a log
  that it keeps beside the world: the function called, the strings among its arguments,
  and the error when the call raised. The notebook runs on \<open>recording L\<close> as on any other
  library; the log is written by the library functions, not by the notebook.
  The functions of pandas that are embedded above as functions of the theory (\<open>dropna\<close>,
  \<open>groupby\<close>, \<open>apply\<close>, \<open>keys\<close>, \<open>to_dict\<close>, and \<open>astype\<close>, which has no access to the
  world) are not library calls in this sense and leave no entry.
\<close>

datatype callee = Library module string | Builtin string | IPython string

datatype event = Event callee "string list" "error option"

fun called :: "event \<Rightarrow> callee \<times> string list" where
  "called (Event f args r) = (f, args)"

fun raised :: "event \<Rightarrow> error option" where
  "raised (Event f args r) = r"

definition logged :: "callee \<Rightarrow> string list \<Rightarrow> ('w, 'a) call \<Rightarrow> ('w \<times> event list, 'a) call" where
  "logged f args c =
     (\<lambda>(w, lg). case c w of
        (Inl e, w') \<Rightarrow> (Inl e, (w', lg @ [Event f args (Some e)]))
      | (Inr v, w') \<Rightarrow> (Inr v, (w', lg @ [Event f args None])))"

definition noted :: "callee \<Rightarrow> string list \<Rightarrow> ('w \<Rightarrow> 'w) \<Rightarrow> 'w \<times> event list \<Rightarrow> 'w \<times> event list" where
  "noted f args c = (\<lambda>(w, lg). (c w, lg @ [Event f args None]))"

fun name_of_module :: "module \<Rightarrow> string" where
  "name_of_module Requests = ''requests''"
| "name_of_module Gzip = ''gzip''"
| "name_of_module Pandas = ''pandas''"
| "name_of_module Networkx = ''networkx''"
| "name_of_module Sys = ''sys''"
| "name_of_module Ddot = ''ddot''"
| "name_of_module Mygene = ''mygene''"

definition recording :: "'w library \<Rightarrow> ('w \<times> event list) library" where
  "recording L =
     \<lparr>import_module = (\<lambda>m. logged (Builtin ''import'') [name_of_module m] (import_module L m)),
      requests_get = (\<lambda>u. logged (Library Requests ''get'') [u] (requests_get L u)),
      file_write = (\<lambda>p b. logged (Builtin ''write'') [p] (file_write L p b)),
      parse_obo = (\<lambda>obo tab names namespaces alt_ids.
         logged (Library Ddot ''parse_obo'') [obo, tab, names, namespaces, alt_ids]
           (parse_obo L obo tab names namespaces alt_ids)),
      read_table = (\<lambda>p names. logged (Library Pandas ''read_table'') (p # names) (read_table L p names)),
      gzip_open = (\<lambda>p. logged (Library Gzip ''open'') [p] (gzip_open L p)),
      parse_gaf = (\<lambda>b. logged (Library Ddot ''parse_gaf'') [] (parse_gaf L b)),
      from_table = (\<lambda>h p c m mc mp root orphans.
         logged (Library Ddot ''from_table'') [p, c, mc, mp, root] (from_table L h p c m mc mp root orphans)),
      clear_node_attr = (\<lambda>ont. logged (Library Ddot ''clear_node_attr'') [] (clear_node_attr L ont)),
      clear_edge_attr = (\<lambda>ont. logged (Library Ddot ''clear_edge_attr'') [] (clear_edge_attr L ont)),
      collapse_ontology = (\<lambda>method ont.
         logged (Library Ddot ''collapse_ontology'') [method] (collapse_ontology L method ont)),
      add_root = (\<lambda>root ont. logged (Library Ddot ''add_root'') [root] (add_root L root ont)),
      update_node_attr = (\<lambda>tab ont.
         logged (Library Ddot ''update_node_attr'') [] (update_node_attr L tab ont)),
      shell = (\<lambda>cmd. noted (IPython ''system'') [cmd] (shell L cmd)),
      time_magic = noted (IPython ''time'') [] (time_magic L),
      MyGeneInfo = logged (Library Mygene ''MyGeneInfo'') [] (MyGeneInfo L),
      querymany = (\<lambda>qs scopes fld species.
         logged (Library Mygene ''querymany'') [scopes, fld, species] (querymany L qs scopes fld species)),
      astype_int = astype_int L,
      copy = (\<lambda>ont. logged (Library Ddot ''copy'') [] (copy L ont)),
      delete = (\<lambda>names ont. logged (Library Ddot ''delete'') [] (delete L names ont)),
      rename = (\<lambda>d ont. logged (Library Ddot ''rename'') [] (rename L d ont)),
      to_table = (\<lambda>p clixo ont. logged (Library Ddot ''to_table'') [p] (to_table L p clixo ont)),
      to_pickle = (\<lambda>p ont. logged (Library Ddot ''to_pickle'') [p] (to_pickle L p ont)),
      to_ndex = (\<lambda>name server user pass visibility ont.
         logged (Library Ddot ''to_ndex'') [name, visibility]
           (to_ndex L name server user pass visibility ont)),
      print_out = (\<lambda>x. logged (Builtin ''print'') [] (print_out L x))\<rparr>"

text \<open>A state for the recording library: the same variables, the world with a log beside it.\<close>

definition with_log :: "event list \<Rightarrow> 'w state \<Rightarrow> ('w \<times> event list) state" where
  "with_log lg s =
     \<lparr>world = (world s, lg),
      ndex_server = ndex_server s, ndex_user = ndex_user s, ndex_pass = ndex_pass s,
      var_r = var_r s, var_f = var_f s,
      hierarchy = hierarchy s, mapping = mapping s,
      go_human = go_human s,
      go_descriptions = go_descriptions s, go_branches = go_branches s,
      var_name = var_name s,
      go_human_uniprot = go_human_uniprot s,
      var_url = var_url s,
      uniprot_2_df = uniprot_2_df s,
      uniprot_2 = uniprot_2 s,
      go_human_mapped = go_human_mapped s\<rparr>"

text \<open>The entries that a run has added to the log, and the errors among them.\<close>

definition new_events :: "('w \<times> event list) state \<Rightarrow> ('w \<times> event list) state \<Rightarrow> event list" where
  "new_events s s' = drop (length (snd (world s))) (snd (world s'))"

definition raised_errors :: "event list \<Rightarrow> error list" where
  "raised_errors es = concat (map (\<lambda>ev. case raised ev of None \<Rightarrow> [] | Some e \<Rightarrow> [e]) es)"

text \<open>
  The library calls of each statement, in the order in which the statement makes them
  when none of them raises; \<open>add_root\<close> is called only when the root is missing. That
  this table is what \<open>exec\<close> does is proved below (\<open>exec_run_log\<close>, \<open>run_run_log\<close>).
\<close>

fun calls :: "stmt \<Rightarrow> (callee \<times> string list) list" where
  "calls (Import m) = [(Builtin ''import'', [name_of_module m])]"
| "calls (From_import m n) = [(Builtin ''import'', [name_of_module m])]"
| "calls Assign_ndex_server = []"
| "calls Assign_ndex_account = []"
| "calls (Requests_get u) = [(Library Requests ''get'', [u])]"
| "calls (Write_r_content p) = [(Builtin ''write'', [p])]"
| "calls Parse_obo =
     [(Library Ddot ''parse_obo'',
       [''go-basic.obo'', ''go.tab'', ''goID_2_name.tab'', ''goID_2_namespace.tab'',
        ''goID_2_alt_id.tab''])]"
| "calls Read_hierarchy =
     [(Library Pandas ''read_table'', [''go.tab'', ''Parent'', ''Child'', ''Relation'', ''Namespace''])]"
| "calls Parse_gaf = [(Library Gzip ''open'', [''goa_human.gaf.gz'']), (Library Ddot ''parse_gaf'', [])]"
| "calls From_table =
     [(Library Ddot ''from_table'', [''Parent'', ''Child'', ''DB Object ID'', ''GO ID'', ''GO:00SUPER''])]"
| "calls Clear_node_attr = [(Library Ddot ''clear_node_attr'', [])]"
| "calls Clear_edge_attr = [(Library Ddot ''clear_edge_attr'', [])]"
| "calls Display_go_human = [(Builtin ''print'', [])]"
| "calls Collapse_ontology = [(Library Ddot ''collapse_ontology'', [''mhkramer'']), (IPython ''time'', [])]"
| "calls Guard_add_root = [(Library Ddot ''add_root'', [''GO:00SUPER''])]"
| "calls Print_go_human = [(Builtin ''print'', [])]"
| "calls Read_go_descriptions =
     [(Library Pandas ''read_table'', [''goID_2_name.tab'', ''Term'', ''Term_Description''])]"
| "calls Update_go_descriptions = [(Library Ddot ''update_node_attr'', [])]"
| "calls Read_go_branches =
     [(Library Pandas ''read_table'', [''goID_2_namespace.tab'', ''Term'', ''Branch''])]"
| "calls Update_go_branches = [(Library Ddot ''update_node_attr'', [])]"
| "calls Pip_install_mygene = [(IPython ''system'', [''pip install mygene''])]"
| "calls New_MyGeneInfo = [(Library Mygene ''MyGeneInfo'', [])]"
| "calls Assign_name = []"
| "calls Copy_go_human = [(Library Ddot ''copy'', [])]"
| "calls (To_table v) = [(Library Ddot ''to_table'', [''collapsed_go.'' @ suffix v])]"
| "calls (To_pickle v) = [(Library Ddot ''to_pickle'', [''collapsed_go.'' @ suffix v @ ''.pkl''])]"
| "calls (To_ndex v) =
     [(Library Ddot ''to_ndex'', [''Human-specific Gene Ontology, '' @ label v, ''PUBLIC''])]"
| "calls (Print_url v) = [(Builtin ''print'', [])]"
| "calls (Querymany t) = [(Library Mygene ''querymany'', [''uniprot'', field t, ''human''])]"
| "calls (Def_f t) = []"
| "calls (Groupby_apply t) = []"
| "calls (Delete_unmapped t) = [(Library Ddot ''delete'', [])]"
| "calls (Rename t) = [(Library Ddot ''rename'', [])]"
| "calls (Print_mapped t) = [(Builtin ''print'', [])]"

definition without_add_root :: "(callee \<times> string list) list \<Rightarrow> (callee \<times> string list) list" where
  "without_add_root cs = filter (\<lambda>c. fst c \<noteq> Library Ddot ''add_root'') cs"

text \<open>
  What a run may add to the log, given the calls \<open>expected\<close> of its statements: apart from
  \<open>add_root\<close>, the calls made are a beginning of the expected ones, all of them when the
  run ends without error (\<open>in_order\<close>); a call that raised is the last call, and its
  error is the error of the run (\<open>raises_last\<close>); \<open>add_root\<close> is called at most once
  for each guard (\<open>add_root_calls\<close>, \<open>guards\<close>).
\<close>

definition in_order :: "(callee \<times> string list) list \<Rightarrow> error option \<Rightarrow> event list \<Rightarrow> bool" where
  "in_order expected r es =
     (\<exists>k\<le>length expected. without_add_root (map called es) = take k expected \<and>
        (r = None \<longrightarrow> k = length expected))"

definition raises_last :: "error option \<Rightarrow> event list \<Rightarrow> bool" where
  "raises_last r es =
     (raised_errors es = [] \<or>
      (\<exists>e. r = Some e \<and> es \<noteq> [] \<and> raised (last es) = Some e \<and> raised_errors (butlast es) = []))"

definition add_root_calls :: "event list \<Rightarrow> nat" where
  "add_root_calls es = length (filter (\<lambda>ev. fst (called ev) = Library Ddot ''add_root'') es)"

definition guards :: "stmt list \<Rightarrow> nat" where
  "guards cs = length (filter (\<lambda>c. c = Guard_add_root) cs)"

definition run_log :: "stmt list \<Rightarrow> error option \<Rightarrow> ('w \<times> event list) state
    \<Rightarrow> ('w \<times> event list) state \<Rightarrow> bool" where
  "run_log cs r s s' =
     (\<exists>es. snd (world s') = snd (world s) @ es \<and>
        in_order (without_add_root (concat (map calls cs))) r es \<and> raises_last r es \<and>
        add_root_calls es \<le> guards cs)"



text \<open>
  The name of a network is made from the variable \<open>name\<close>. In a list of statements the
  name is ready when every \<open>to_ndex\<close> comes after the assignment of \<open>name\<close> (or the
  variable holds the name from the start, \<open>b\<close>).
\<close>

fun name_ready :: "bool \<Rightarrow> stmt list \<Rightarrow> bool" where
  "name_ready b [] = True"
| "name_ready b (Assign_name # cs) = name_ready True cs"
| "name_ready b (To_ndex v # cs) = (b \<and> name_ready b cs)"
| "name_ready b (c # cs) = name_ready b cs"

subsection \<open>Properties of strings\<close>

text \<open>
  The text of an integer: an optional minus sign, then one or more decimal digits and
  nothing else (no point, no exponent); and the integer that such a text denotes.
\<close>

definition is_digit :: "char \<Rightarrow> bool" where
  "is_digit c = (c \<in> set ''0123456789'')"

fun integer_literal :: "string \<Rightarrow> bool" where
  "integer_literal [] = False"
| "integer_literal (c # cs) =
     (if c = CHR ''-'' then cs \<noteq> [] \<and> list_all is_digit cs else list_all is_digit (c # cs))"

definition digit_of :: "char \<Rightarrow> nat" where
  "digit_of c = length (takeWhile (\<lambda>d. d \<noteq> c) ''0123456789'')"

definition digits_value :: "string \<Rightarrow> nat" where
  "digits_value ds = foldl (\<lambda>a c. 10 * a + digit_of c) 0 ds"

fun literal_value :: "string \<Rightarrow> int" where
  "literal_value [] = 0"
| "literal_value (c # cs) =
     (if c = CHR ''-'' then - int (digits_value cs) else int (digits_value (c # cs)))"

fun values_of :: "'a picked \<Rightarrow> 'a list" where
  "values_of (Scalar a) = [a]"
| "values_of (Listed as) = as"

section \<open>A small world and a library on it\<close>

text \<open>
  A world with the four things the notebook's calls touch: the files, the networks on
  the NDEx server, what was printed, and the commands the shell was given.
\<close>

record small_world =
  files :: "(string \<times> bytes) list"
  uploads :: "(string \<times> ontology) list"
  printed :: "shown list"
  commands :: "string list"

text \<open>
  Modelled from the spec: none of the libraries is among the sources, and the spec names
  the steps without describing them (download, parse, merge under one synthetic root,
  collapse redundant terms, translate identifiers, upload). \<open>small_library\<close> is one
  library that does these steps on a toy ontology: three branch roots \<open>GO:1\<close>, \<open>GO:2\<close>,
  \<open>GO:3\<close> under the root given as \<open>add_root_name\<close>, and three genes \<open>P1\<close>, \<open>P2\<close>, \<open>P3\<close>.
  Collapsing removes the terms no gene is annotated to (here also the root); the
  identifier service knows one identifier for \<open>P1\<close>, two for \<open>P2\<close> and none for \<open>P3\<close>. It
  is an input on which the notebook is run, not a description of ddot; no theorem
  about all libraries depends on it.
\<close>

definition toy_ontology :: "string \<Rightarrow> ontology" where
  "toy_ontology root =
     \<lparr>genes = [''P1'', ''P2'', ''P3''],
      terms = [root, ''GO:1'', ''GO:2'', ''GO:3'', ''GO:4''],
      gene_2_term = [(''P1'', ''GO:1''), (''P2'', ''GO:2''), (''P3'', ''GO:3''), (''P3'', ''GO:1'')],
      term_2_term = [(root, ''GO:1''), (root, ''GO:2''), (root, ''GO:3''), (''GO:1'', ''GO:4'')],
      node_attributes = [(''name'', [(''GO:1'', ''biological_process'')])],
      edge_attributes = [(''relation'', [((''GO:1'', ''GO:4''), ''is_a'')])]\<rparr>"

definition toy_collapse :: "ontology \<Rightarrow> ontology" where
  "toy_collapse ont =
     ont\<lparr>terms := filter (\<lambda>t. t \<in> snd ` set (gene_2_term ont)) (terms ont),
         term_2_term := filter (\<lambda>(p, c). p \<in> snd ` set (gene_2_term ont) \<and>
                                         c \<in> snd ` set (gene_2_term ont)) (term_2_term ont)\<rparr>"

definition toy_add_root :: "string \<Rightarrow> ontology \<Rightarrow> ontology" where
  "toy_add_root root ont =
     ont\<lparr>terms := root # terms ont,
         term_2_term := map (\<lambda>t. (root, t))
             (filter (\<lambda>t. t \<notin> snd ` set (term_2_term ont)) (terms ont)) @ term_2_term ont\<rparr>"

definition toy_update_node_attr :: "table \<Rightarrow> ontology \<Rightarrow> ontology" where
  "toy_update_node_attr tab ont =
     (case tab of
        [] \<Rightarrow> ont
      | header # rows \<Rightarrow>
          ont\<lparr>node_attributes := node_attributes ont @ [(last header, map (\<lambda>r. (hd r, last r)) rows)]\<rparr>)"

definition toy_querymany :: "string list \<Rightarrow> string \<Rightarrow> hits" where
  "toy_querymany qs fld =
     concat (map (\<lambda>q.
        if q = ''P1'' then [(q, Some (if fld = ''symbol'' then ''TP53'' else ''7157''))]
        else if q = ''P2''
          then [(q, Some (if fld = ''symbol'' then ''HBB'' else ''3043'')),
                (q, Some (if fld = ''symbol'' then ''HBD'' else ''3045''))]
        else [(q, None)]) qs)"

definition toy_astype_int :: "string \<Rightarrow> int option" where
  "toy_astype_int v =
     (if v = ''7157'' then Some 7157 else if v = ''3043'' then Some 3043
      else if v = ''3045'' then Some 3045 else None)"

definition toy_delete :: "string set \<Rightarrow> ontology \<Rightarrow> ontology" where
  "toy_delete names ont =
     ont\<lparr>genes := filter (\<lambda>g. g \<notin> names) (genes ont),
         gene_2_term := filter (\<lambda>(g, t). g \<notin> names) (gene_2_term ont)\<rparr>"

definition toy_new_names :: "(string \<rightharpoonup> string picked) \<Rightarrow> string \<Rightarrow> string list" where
  "toy_new_names d g = (case d g of None \<Rightarrow> [g] | Some y \<Rightarrow> values_of y)"

definition toy_rename :: "(string \<rightharpoonup> string picked) \<Rightarrow> ontology \<Rightarrow> ontology" where
  "toy_rename d ont =
     ont\<lparr>genes := concat (map (toy_new_names d) (genes ont)),
         gene_2_term := concat (map (\<lambda>(g, t). map (\<lambda>n. (n, t)) (toy_new_names d g))
                                  (gene_2_term ont))\<rparr>"

definition small_library :: "small_world library" where
  "small_library =
     \<lparr>import_module = (\<lambda>m w. (Inr (), w)),
      requests_get = (\<lambda>u w. (Inr (''content of '' @ u), w)),
      file_write = (\<lambda>p b w. (Inr (), w\<lparr>files := (p, b) # files w\<rparr>)),
      parse_obo = (\<lambda>obo tab names namespaces alt_ids w.
         (Inr (), w\<lparr>files := (tab, []) # (names, []) # (namespaces, []) # (alt_ids, []) # files w\<rparr>)),
      read_table = (\<lambda>p names w. (Inr [names], w)),
      gzip_open = (\<lambda>p w. (Inr (''content of '' @ p), w)),
      parse_gaf = (\<lambda>b w. (Inr [[''DB Object ID'', ''GO ID'']], w)),
      from_table = (\<lambda>h p c m mc mp root orphans w. (Inr (toy_ontology root), w)),
      clear_node_attr = (\<lambda>ont w. (Inr (ont\<lparr>node_attributes := []\<rparr>), w)),
      clear_edge_attr = (\<lambda>ont w. (Inr (ont\<lparr>edge_attributes := []\<rparr>), w)),
      collapse_ontology = (\<lambda>method ont w. (Inr (toy_collapse ont), w)),
      add_root = (\<lambda>root ont w. (Inr (toy_add_root root ont), w)),
      update_node_attr = (\<lambda>tab ont w. (Inr (toy_update_node_attr tab ont), w)),
      shell = (\<lambda>cmd w. w\<lparr>commands := commands w @ [cmd]\<rparr>),
      time_magic = (\<lambda>w. w\<lparr>printed := printed w @ [Shown_text ''CPU times, Wall time'']\<rparr>),
      MyGeneInfo = (\<lambda>w. (Inr (), w)),
      querymany = (\<lambda>qs scopes fld species w. (Inr (toy_querymany qs fld), w)),
      astype_int = toy_astype_int,
      copy = (\<lambda>ont w. (Inr ont, w)),
      delete = (\<lambda>names ont w. (Inr (toy_delete names ont), w)),
      rename = (\<lambda>d ont w. (Inr (toy_rename d ont), w)),
      to_table = (\<lambda>p clixo ont w. (Inr (), w\<lparr>files := (p, ''table'') # files w\<rparr>)),
      to_pickle = (\<lambda>p ont w. (Inr (), w\<lparr>files := (p, ''pickle'') # files w\<rparr>)),
      to_ndex = (\<lambda>name server user pass visibility ont w.
         (Inr (server @ ''/v2/network/'' @ name), w\<lparr>uploads := uploads w @ [(name, ont)]\<rparr>)),
      print_out = (\<lambda>x w. (Inr (), w\<lparr>printed := printed w @ [x]\<rparr>))\<rparr>"


definition empty_ontology :: ontology where
  "empty_ontology =
     \<lparr>genes = [], terms = [], gene_2_term = [], term_2_term = [], node_attributes = [],
      edge_attributes = []\<rparr>"

text \<open>A state before the first cell: nothing on disk or on the server, nothing assigned.\<close>

definition fresh :: "small_world state" where
  "fresh =
     \<lparr>world = \<lparr>files = [], uploads = [], printed = [], commands = []\<rparr>,
      ndex_server = [], ndex_user = [], ndex_pass = [],
      var_r = [], var_f = File_object [],
      hierarchy = [], mapping = [],
      go_human = empty_ontology,
      go_descriptions = [], go_branches = [],
      var_name = [],
      go_human_uniprot = empty_ontology,
      var_url = [],
      uniprot_2_df = (\<lambda>t. []),
      uniprot_2 = (\<lambda>t. []),
      go_human_mapped = (\<lambda>t. empty_ontology)\<rparr>"

text \<open>
  A \<open>ddot\<close> that is out of order: every one of its functions raises. The other libraries
  are those of \<open>small_library\<close>.
\<close>

definition ddot_down :: "('w, 'a) call" where
  "ddot_down = (\<lambda>w. (Inl (Library_error ''ddot is not available''), w))"

definition library_without_ddot :: "small_world library" where
  "library_without_ddot =
     small_library\<lparr>parse_obo := (\<lambda>obo tab names namespaces alt_ids. ddot_down),
        parse_gaf := (\<lambda>b. ddot_down),
        from_table := (\<lambda>h p c m mc mp root orphans. ddot_down),
        clear_node_attr := (\<lambda>ont. ddot_down),
        clear_edge_attr := (\<lambda>ont. ddot_down),
        collapse_ontology := (\<lambda>method ont. ddot_down),
        add_root := (\<lambda>root ont. ddot_down),
        update_node_attr := (\<lambda>tab ont. ddot_down),
        copy := (\<lambda>ont. ddot_down),
        delete := (\<lambda>names ont. ddot_down),
        rename := (\<lambda>d ont. ddot_down),
        to_table := (\<lambda>p clixo ont. ddot_down),
        to_pickle := (\<lambda>p ont. ddot_down),
        to_ndex := (\<lambda>name server user pass visibility ont. ddot_down)\<rparr>"

text \<open>The state in which the small library has built the ontology, before any query.\<close>

definition with_toy_ontology :: "small_world state" where
  "with_toy_ontology = fresh\<lparr>go_human := toy_ontology ''GO:00SUPER''\<rparr>"

section \<open>Properties\<close>

subsection \<open>Decimal strings\<close>

lemma digit_char_digit: "d < 10 \<Longrightarrow> is_digit (digit_char d)"
  unfolding digit_char_def is_digit_def by (rule nth_mem) simp

lemma str_nat_digits: "list_all is_digit (str_nat n)"
proof (induction n rule: str_nat.induct)
  case (1 n)
  show ?case
  proof (cases "n < 10")
    case True
    then show ?thesis using digit_char_digit [of n] by (subst str_nat.simps) simp
  next
    case False
    have "n mod 10 < 10" by simp
    then have "is_digit (digit_char (n mod 10))" by (rule digit_char_digit)
    with 1 False show ?thesis by (subst str_nat.simps) simp
  qed
qed

lemma str_nat_nonempty: "str_nat n \<noteq> []"
  by (subst str_nat.simps) simp

lemma minus_no_digit: "\<not> is_digit CHR ''-''"
  by (simp add: is_digit_def)

lemma str_nat_head: "str_nat n = c # cs \<Longrightarrow> c \<noteq> CHR ''-''"
  using str_nat_digits [of n] minus_no_digit by auto

lemma str_int_literal: "integer_literal (str_int i)"
proof (cases "i < 0")
  case True
  then show ?thesis by (simp add: str_int_def str_nat_digits str_nat_nonempty)
next
  case False
  obtain c cs where eq: "str_nat (nat i) = c # cs"
    using str_nat_nonempty [of "nat i"] by (cases "str_nat (nat i)") auto
  have all: "list_all is_digit (c # cs)"
    using str_nat_digits [of "nat i"] eq by simp
  have "c \<noteq> CHR ''-''" using eq by (rule str_nat_head)
  with False eq all show ?thesis by (simp add: str_int_def)
qed

lemma digit_of_digit_char: "d < 10 \<Longrightarrow> digit_of (digit_char d) = d"
proof -
  assume "d < 10"
  then have "d = 0 \<or> d = 1 \<or> d = 2 \<or> d = 3 \<or> d = 4 \<or> d = 5 \<or> d = 6 \<or> d = 7 \<or> d = 8 \<or> d = 9"
    by arith
  then show ?thesis
    by (elim disjE) (simp_all add: digit_of_def digit_char_def)
qed

lemma digits_value_snoc: "digits_value (ds @ [c]) = 10 * digits_value ds + digit_of c"
  by (simp add: digits_value_def)

lemma digits_value_str_nat: "digits_value (str_nat n) = n"
proof (induction n rule: str_nat.induct)
  case (1 n)
  show ?case
  proof (cases "n < 10")
    case True
    then show ?thesis
      by (subst str_nat.simps) (simp add: digits_value_def digit_of_digit_char)
  next
    case False
    have "digit_of (digit_char (n mod 10)) = n mod 10"
      by (rule digit_of_digit_char) simp
    with 1 False show ?thesis
      by (subst str_nat.simps) (simp add: digits_value_snoc)
  qed
qed

lemma literal_value_str_int: "literal_value (str_int i) = i"
proof (cases "i < 0")
  case True
  then show ?thesis by (simp add: str_int_def digits_value_str_nat)
next
  case False
  obtain c cs where eq: "str_nat (nat i) = c # cs"
    using str_nat_nonempty [of "nat i"] by (cases "str_nat (nat i)") auto
  have "c \<noteq> CHR ''-''" using eq by (rule str_nat_head)
  moreover have "digits_value (c # cs) = nat i"
    using digits_value_str_nat [of "nat i"] eq by simp
  ultimately show ?thesis using False eq by (simp add: str_int_def)
qed

lemma astype_length: "astype conv x = Inr ys \<Longrightarrow> length ys = length x"
  by (induction x arbitrary: ys) (auto split: option.splits sum.splits)

lemma astype_map: "astype conv x = Inr ys \<longleftrightarrow> map conv x = map Some ys"
proof (induction x arbitrary: ys)
  case Nil
  then show ?case by auto
next
  case (Cons v vs)
  show ?case
  proof (cases "conv v")
    case None
    then show ?thesis by (cases ys) auto
  next
    case (Some i)
    show ?thesis
    proof (cases "astype conv vs")
      case (Inl e)
      with Cons Some show ?thesis by (cases ys) auto
    next
      case (Inr ns)
      with Cons Some show ?thesis by (cases ys) auto
    qed
  qed
qed

lemma astype_raises: "astype conv x = Inl e \<Longrightarrow> e = ValueError \<and> None \<in> set (map conv x)"
  by (induction x) (auto split: option.splits sum.splits)

subsection \<open>Runs\<close>

lemma run_append:
  "run L (xs @ ys) s =
     (case run L xs s of (Some e, s') \<Rightarrow> (Some e, s') | (None, s') \<Rightarrow> run L ys s')"
  by (induction xs arbitrary: s) (auto split: prod.splits option.splits)

lemma run_snoc:
  "run L (pre @ [c]) s = (None, s') \<Longrightarrow>
     \<exists>s0. run L pre s = (None, s0) \<and> exec L c s0 = (None, s')"
  by (auto simp: run_append split: prod.splits option.splits)

lemmas cells = program_def notebook_def cell1_def cell2_def cell3_def cell4_def cell5_def
  cell6_def cell7_def cell8_def cell9_def cell10_def cell11_def cell_query_def cell_upload_def

lemmas small_simps = small_library_def toy_ontology_def toy_collapse_def toy_add_root_def
  toy_update_node_attr_def toy_querymany_def toy_astype_int_def toy_delete_def toy_new_names_def
  toy_rename_def fresh_def empty_ontology_def invoke_def unchanged_def set_go_human_def
  set_go_human_mapped_def to_delete_def keys_def to_dict_def dropna_def groupby_def
  f_symbol_def f_entrezgene_def

subsection \<open>The log of the recording library\<close>

lemma recording_fields [simp]:
  "import_module (recording L) m = logged (Builtin ''import'') [name_of_module m] (import_module L m)"
  "requests_get (recording L) u = logged (Library Requests ''get'') [u] (requests_get L u)"
  "file_write (recording L) p b = logged (Builtin ''write'') [p] (file_write L p b)"
  "parse_obo (recording L) obo tab names namespaces alt_ids =
     logged (Library Ddot ''parse_obo'') [obo, tab, names, namespaces, alt_ids]
       (parse_obo L obo tab names namespaces alt_ids)"
  "read_table (recording L) p cols = logged (Library Pandas ''read_table'') (p # cols) (read_table L p cols)"
  "gzip_open (recording L) p = logged (Library Gzip ''open'') [p] (gzip_open L p)"
  "parse_gaf (recording L) b = logged (Library Ddot ''parse_gaf'') [] (parse_gaf L b)"
  "from_table (recording L) h pa ch mt mc mp root orphans =
     logged (Library Ddot ''from_table'') [pa, ch, mc, mp, root] (from_table L h pa ch mt mc mp root orphans)"
  "clear_node_attr (recording L) ont = logged (Library Ddot ''clear_node_attr'') [] (clear_node_attr L ont)"
  "clear_edge_attr (recording L) ont = logged (Library Ddot ''clear_edge_attr'') [] (clear_edge_attr L ont)"
  "collapse_ontology (recording L) method ont =
     logged (Library Ddot ''collapse_ontology'') [method] (collapse_ontology L method ont)"
  "add_root (recording L) root ont = logged (Library Ddot ''add_root'') [root] (add_root L root ont)"
  "update_node_attr (recording L) tb ont =
     logged (Library Ddot ''update_node_attr'') [] (update_node_attr L tb ont)"
  "shell (recording L) cmd = noted (IPython ''system'') [cmd] (shell L cmd)"
  "time_magic (recording L) = noted (IPython ''time'') [] (time_magic L)"
  "MyGeneInfo (recording L) = logged (Library Mygene ''MyGeneInfo'') [] (MyGeneInfo L)"
  "querymany (recording L) qs scopes fld species =
     logged (Library Mygene ''querymany'') [scopes, fld, species] (querymany L qs scopes fld species)"
  "astype_int (recording L) = astype_int L"
  "copy (recording L) ont = logged (Library Ddot ''copy'') [] (copy L ont)"
  "delete (recording L) nms ont = logged (Library Ddot ''delete'') [] (delete L nms ont)"
  "rename (recording L) d ont = logged (Library Ddot ''rename'') [] (rename L d ont)"
  "to_table (recording L) p clixo ont = logged (Library Ddot ''to_table'') [p] (to_table L p clixo ont)"
  "to_pickle (recording L) p ont = logged (Library Ddot ''to_pickle'') [p] (to_pickle L p ont)"
  "to_ndex (recording L) nm server user pass visibility ont =
     logged (Library Ddot ''to_ndex'') [nm, visibility] (to_ndex L nm server user pass visibility ont)"
  "print_out (recording L) x = logged (Builtin ''print'') [] (print_out L x)"
  by (simp_all add: recording_def)

lemma invoke_logged:
  assumes "invoke (logged f args c) store s = (r, s')"
    and "\<And>v st. world (store v st) = world st"
  shows "snd (world s') = snd (world s) @ [Event f args r]"
proof -
  obtain w lg where w: "world s = (w, lg)" by (cases "world s")
  obtain res w' where c: "c w = (res, w')" by (cases "c w")
  show ?thesis
    using assms w c by (cases res) (auto simp: invoke_def logged_def)
qed

lemma raises_last_single: "raises_last r [Event f args r]"
  by (cases r) (simp_all add: raises_last_def raised_errors_def)

lemma raises_last_none: "raises_last r []"
  by (simp add: raises_last_def raised_errors_def)

lemma noted_log: "snd (noted f args c W) = snd W @ [Event f args None]"
  by (cases W) (simp add: noted_def)

lemmas stores = unchanged_def set_go_human_def set_go_human_mapped_def

lemma step_single:
  assumes "snd (world s') = snd (world s) @ [Event f args r]" and "calls c = [(f, args)]"
    and "f \<noteq> Library Ddot ''add_root''"
  shows "run_log [c] r s s'"
proof -
  have "in_order (without_add_root (concat (map calls [c]))) r [Event f args r]"
    using assms(2,3) by (auto simp: in_order_def without_add_root_def intro: exI [of _ 1])
  moreover have "add_root_calls [Event f args r] \<le> guards [c]"
    using assms(3) by (simp add: add_root_calls_def)
  ultimately show ?thesis using assms(1) raises_last_single unfolding run_log_def by blast
qed

lemma step_silent:
  assumes "snd (world s') = snd (world s)" and "calls c = []"
  shows "run_log [c] r s s'"
  using assms raises_last_none
  by (auto simp: run_log_def in_order_def without_add_root_def add_root_calls_def)

lemma invoke_step:
  assumes "invoke (logged f args c) store s = (r, s')"
    and "\<And>v st. world (store v st) = world st"
    and "calls st = [(f, args)]" and "f \<noteq> Library Ddot ''add_root''"
  shows "run_log [st] r s s'"
  using invoke_logged [OF assms(1,2)] assms(3,4) by (rule step_single)

lemma step_two:
  assumes "snd (world s') = snd (world s) @ [Event f args None, Event g args' r]"
    and "calls c = [(f, args), (g, args')]"
    and "f \<noteq> Library Ddot ''add_root''" and "g \<noteq> Library Ddot ''add_root''"
  shows "run_log [c] r s s'"
proof -
  have "in_order (without_add_root (concat (map calls [c]))) r [Event f args None, Event g args' r]"
    using assms(2,3,4) by (auto simp: in_order_def without_add_root_def intro: exI [of _ 2])
  moreover have "raises_last r [Event f args None, Event g args' r]"
    by (cases r) (simp_all add: raises_last_def raised_errors_def)
  moreover have "add_root_calls [Event f args None, Event g args' r] \<le> guards [c]"
    using assms(3,4) by (simp add: add_root_calls_def)
  ultimately show ?thesis using assms(1) unfolding run_log_def by blast
qed

lemma step_first_of_two:
  assumes "snd (world s') = snd (world s) @ [Event f args (Some e)]"
    and "calls c = [(f, args), (g, args')]"
    and "f \<noteq> Library Ddot ''add_root''" and "g \<noteq> Library Ddot ''add_root''"
  shows "run_log [c] (Some e) s s'"
proof -
  have "in_order (without_add_root (concat (map calls [c]))) (Some e) [Event f args (Some e)]"
    using assms(2,3,4) by (auto simp: in_order_def without_add_root_def intro: exI [of _ 1])
  moreover have "add_root_calls [Event f args (Some e)] \<le> guards [c]"
    using assms(3) by (simp add: add_root_calls_def)
  ultimately show ?thesis using assms(1) raises_last_single unfolding run_log_def by blast
qed

lemma step_guard:
  assumes "snd (world s') = snd (world s) @ [Event (Library Ddot ''add_root'') args r]"
  shows "run_log [Guard_add_root] r s s'"
proof -
  have "in_order (without_add_root (concat (map calls [Guard_add_root]))) r
      [Event (Library Ddot ''add_root'') args r]"
    by (simp add: in_order_def without_add_root_def)
  moreover have "add_root_calls [Event (Library Ddot ''add_root'') args r] \<le> guards [Guard_add_root]"
    by (simp add: add_root_calls_def guards_def)
  ultimately show ?thesis using assms raises_last_single unfolding run_log_def by blast
qed

lemma step_guard_skipped:
  assumes "snd (world s') = snd (world s)"
  shows "run_log [Guard_add_root] r s s'"
  using assms raises_last_none
  by (auto simp: run_log_def in_order_def without_add_root_def add_root_calls_def)

lemma parse_gaf_step:
  assumes "exec (recording L) Parse_gaf s = (r, s')"
  shows "run_log [Parse_gaf] r s s'"
proof -
  obtain w lg where w: "world s = (w, lg)" by (cases "world s")
  obtain res w1 where g: "gzip_open L ''goa_human.gaf.gz'' w = (res, w1)"
    by (cases "gzip_open L ''goa_human.gaf.gz'' w")
  show ?thesis
  proof (cases res)
    case (Inl e)
    with assms w g have "r = Some e" and "snd (world s') = snd (world s) @ [Event (Library Gzip ''open'') [''goa_human.gaf.gz''] (Some e)]"
      by (auto simp: logged_def)
    then show ?thesis by (auto intro!: step_first_of_two)
  next
    case (Inr b)
    define s1 where "s1 = s\<lparr>world := (w1, lg @ [Event (Library Gzip ''open'') [''goa_human.gaf.gz''] None]),
      var_f := File_object ''goa_human.gaf.gz''\<rparr>"
    from assms w g Inr have
      "invoke (logged (Library Ddot ''parse_gaf'') [] (parse_gaf L b)) (\<lambda>t s. s\<lparr>mapping := t\<rparr>) s1 = (r, s')"
      by (simp add: logged_def s1_def)
    then have "snd (world s') = snd (world s1) @ [Event (Library Ddot ''parse_gaf'') [] r]"
      by (rule invoke_logged) simp
    then have "snd (world s') = snd (world s) @
        [Event (Library Gzip ''open'') [''goa_human.gaf.gz''] None, Event (Library Ddot ''parse_gaf'') [] r]"
      using w by (simp add: s1_def)
    then show ?thesis by (rule step_two) simp_all
  qed
qed

lemma collapse_step:
  assumes "exec (recording L) Collapse_ontology s = (r, s')"
  shows "run_log [Collapse_ontology] r s s'"
proof -
  obtain r1 s1 where i: "invoke (logged (Library Ddot ''collapse_ontology'') [''mhkramer'']
      (collapse_ontology L ''mhkramer'' (go_human s))) set_go_human s = (r1, s1)"
    by (cases "invoke (logged (Library Ddot ''collapse_ontology'') [''mhkramer'']
      (collapse_ontology L ''mhkramer'' (go_human s))) set_go_human s")
  then have lg: "snd (world s1) = snd (world s) @ [Event (Library Ddot ''collapse_ontology'') [''mhkramer''] r1]"
    by (rule invoke_logged) (simp add: set_go_human_def)
  show ?thesis
  proof (cases r1)
    case None
    with assms i have "r = None" and "s' = s1\<lparr>world := noted (IPython ''time'') [] (time_magic L) (world s1)\<rparr>"
      by auto
    with lg None have "snd (world s') = snd (world s) @
        [Event (Library Ddot ''collapse_ontology'') [''mhkramer''] None, Event (IPython ''time'') [] r]"
      by (simp add: noted_log)
    then show ?thesis by (rule step_two) simp_all
  next
    case (Some e)
    with assms i have "r = Some e" and "s' = s1" by auto
    with lg Some show ?thesis by (auto intro!: step_first_of_two)
  qed
qed

lemma exec_run_log:
  assumes "exec (recording L) c s = (r, s')"
    and "(\<exists>v. c = To_ndex v) \<longrightarrow> var_name s = ''Human-specific Gene Ontology''"
  shows "run_log [c] r s s'"
proof (cases c)
  case Parse_gaf
  with assms(1) show ?thesis using parse_gaf_step by blast
next
  case Collapse_ontology
  with assms(1) show ?thesis using collapse_step by blast
next
  case Guard_add_root
  show ?thesis
  proof (cases "''GO:00SUPER'' \<in> set (terms (go_human s))")
    case True
    with assms(1) Guard_add_root show ?thesis by (auto intro!: step_guard_skipped)
  next
    case False
    with assms(1) Guard_add_root have "invoke (logged (Library Ddot ''add_root'') [''GO:00SUPER'']
        (add_root L ''GO:00SUPER'' (go_human s))) set_go_human s = (r, s')"
      by simp
    then have "snd (world s') = snd (world s) @ [Event (Library Ddot ''add_root'') [''GO:00SUPER''] r]"
      by (rule invoke_logged) (simp add: set_go_human_def)
    with Guard_add_root show ?thesis by (auto intro: step_guard)
  qed
next
  case Pip_install_mygene
  with assms(1) have "snd (world s') = snd (world s) @ [Event (IPython ''system'') [''pip install mygene''] r]"
    by (auto simp: noted_log)
  with Pip_install_mygene show ?thesis by (auto intro!: step_single)
next
  case (Groupby_apply t)
  with assms(1) show ?thesis by (auto intro!: step_silent split: sum.splits)
next
  case (To_ndex v)
  with assms have "invoke (logged (Library Ddot ''to_ndex'') [''Human-specific Gene Ontology, '' @ label v, ''PUBLIC'']
     (to_ndex L (var_name s @ '', '' @ label v) (ndex_server s) (ndex_user s) (ndex_pass s)
        ''PUBLIC'' (ontology_of s v))) (\<lambda>u s. s\<lparr>var_url := u\<rparr>) s = (r, s')"
    by simp
  then show ?thesis using To_ndex by (auto elim!: invoke_step)
next
  case (Import m)
  with assms(1) show ?thesis by simp (erule invoke_step; simp add: stores)
next
  case (From_import m n)
  with assms(1) show ?thesis by simp (erule invoke_step; simp add: stores)
next
  case (Requests_get u)
  with assms(1) show ?thesis by simp (erule invoke_step; simp add: stores)
next
  case (Write_r_content p)
  with assms(1) show ?thesis by simp (erule invoke_step; simp add: stores)
next
  case Parse_obo
  with assms(1) show ?thesis by simp (erule invoke_step; simp add: stores)
next
  case Read_hierarchy
  with assms(1) show ?thesis by simp (erule invoke_step; simp add: stores)
next
  case From_table
  with assms(1) show ?thesis by simp (erule invoke_step; simp add: stores)
next
  case Clear_node_attr
  with assms(1) show ?thesis by simp (erule invoke_step; simp add: stores)
next
  case Clear_edge_attr
  with assms(1) show ?thesis by simp (erule invoke_step; simp add: stores)
next
  case Display_go_human
  with assms(1) show ?thesis by simp (erule invoke_step; simp add: stores)
next
  case Print_go_human
  with assms(1) show ?thesis by simp (erule invoke_step; simp add: stores)
next
  case Read_go_descriptions
  with assms(1) show ?thesis by simp (erule invoke_step; simp add: stores)
next
  case Update_go_descriptions
  with assms(1) show ?thesis by simp (erule invoke_step; simp add: stores)
next
  case Read_go_branches
  with assms(1) show ?thesis by simp (erule invoke_step; simp add: stores)
next
  case Update_go_branches
  with assms(1) show ?thesis by simp (erule invoke_step; simp add: stores)
next
  case New_MyGeneInfo
  with assms(1) show ?thesis by simp (erule invoke_step; simp add: stores)
next
  case Copy_go_human
  with assms(1) show ?thesis by simp (erule invoke_step; simp add: stores)
next
  case (To_table v)
  with assms(1) show ?thesis by simp (erule invoke_step; simp add: stores)
next
  case (To_pickle v)
  with assms(1) show ?thesis by simp (erule invoke_step; simp add: stores)
next
  case (Print_url v)
  with assms(1) show ?thesis by simp (erule invoke_step; simp add: stores)
next
  case (Querymany t)
  with assms(1) show ?thesis by simp (erule invoke_step; simp add: stores)
next
  case (Delete_unmapped t)
  with assms(1) show ?thesis by simp (erule invoke_step; simp add: stores)
next
  case (Rename t)
  with assms(1) show ?thesis by simp (erule invoke_step; simp add: stores)
next
  case (Print_mapped t)
  with assms(1) show ?thesis by simp (erule invoke_step; simp add: stores)
next
  case Assign_ndex_server
  with assms(1) show ?thesis by (auto intro!: step_silent)
next
  case Assign_ndex_account
  with assms(1) show ?thesis by (auto intro!: step_silent)
next
  case Assign_name
  with assms(1) show ?thesis by (auto intro!: step_silent)
next
  case (Def_f t)
  with assms(1) show ?thesis by (auto intro!: step_silent)
qed

lemma exec_var_name:
  "c \<noteq> Assign_name \<Longrightarrow> exec L c s = (r, s') \<Longrightarrow> var_name s' = var_name s"
  by (cases c) (auto simp: invoke_def stores split: prod.splits sum.splits if_splits)

lemma name_ready_other:
  "c \<noteq> Assign_name \<Longrightarrow> (\<forall>v. c \<noteq> To_ndex v) \<Longrightarrow> name_ready b (c # cs) = name_ready b cs"
  by (cases c) simp_all


lemma without_add_root_append [simp]:
  "without_add_root (xs @ ys) = without_add_root xs @ without_add_root ys"
  by (simp add: without_add_root_def)

lemma without_add_root_idem [simp]: "without_add_root (without_add_root xs) = without_add_root xs"
  by (simp add: without_add_root_def)

lemma in_order_append:
  assumes "in_order X None es1" and "in_order Y r es2"
  shows "in_order (X @ Y) r (es1 @ es2)"
proof -
  from assms(1) have a: "without_add_root (map called es1) = X"
    by (auto simp: in_order_def)
  from assms(2) obtain k where k: "k \<le> length Y" "without_add_root (map called es2) = take k Y"
    "r = None \<longrightarrow> k = length Y"
    by (auto simp: in_order_def)
  have "length X + k \<le> length (X @ Y) \<and>
      without_add_root (map called (es1 @ es2)) = take (length X + k) (X @ Y) \<and>
      (r = None \<longrightarrow> length X + k = length (X @ Y))"
    using a k by simp
  then show ?thesis unfolding in_order_def by blast
qed

lemma in_order_stop:
  assumes "in_order X (Some e) es"
  shows "in_order (X @ Y) (Some e) es"
proof -
  from assms obtain k where k: "k \<le> length X" "without_add_root (map called es) = take k X"
    by (auto simp: in_order_def)
  then have "k \<le> length (X @ Y) \<and> without_add_root (map called es) = take k (X @ Y)"
    by simp
  then show ?thesis unfolding in_order_def by blast
qed

lemma raised_errors_append [simp]: "raised_errors (xs @ ys) = raised_errors xs @ raised_errors ys"
  by (simp add: raised_errors_def)

lemma raises_last_none_clean: "raises_last None es \<Longrightarrow> raised_errors es = []"
  by (auto simp: raises_last_def)

lemma raises_last_append:
  assumes "raises_last None es1" and "raises_last r es2"
  shows "raises_last r (es1 @ es2)"
proof -
  have c: "raised_errors es1 = []" using assms(1) by (rule raises_last_none_clean)
  show ?thesis
  proof (cases "raised_errors es2 = []")
    case True
    with c show ?thesis by (simp add: raises_last_def)
  next
    case False
    with assms(2) obtain e where e: "r = Some e" "es2 \<noteq> []" "raised (last es2) = Some e"
      "raised_errors (butlast es2) = []"
      by (auto simp: raises_last_def)
    then have "r = Some e \<and> es1 @ es2 \<noteq> [] \<and> raised (last (es1 @ es2)) = Some e \<and>
        raised_errors (butlast (es1 @ es2)) = []"
      using c by (simp add: butlast_append)
    then show ?thesis unfolding raises_last_def by blast
  qed
qed

lemma add_root_calls_append [simp]:
  "add_root_calls (xs @ ys) = add_root_calls xs + add_root_calls ys"
  by (simp add: add_root_calls_def)

lemma guards_Cons: "guards (c # cs) = guards [c] + guards cs"
  by (simp add: guards_def)

lemma run_log_Nil: "run_log [] None s s"
  by (simp add: run_log_def in_order_def raises_last_def raised_errors_def without_add_root_def
      add_root_calls_def)

lemma run_log_stop:
  assumes "run_log [c] (Some e) s s'"
  shows "run_log (c # cs) (Some e) s s'"
proof -
  from assms obtain es where es: "snd (world s') = snd (world s) @ es"
      "in_order (without_add_root (calls c)) (Some e) es" "raises_last (Some e) es"
      "add_root_calls es \<le> guards [c]"
    unfolding run_log_def by auto
  have "in_order (without_add_root (concat (map calls (c # cs)))) (Some e) es"
    using es(2) by (simp add: in_order_stop)
  moreover have "add_root_calls es \<le> guards (c # cs)"
    using es(4) guards_Cons [of c cs] by simp
  ultimately show ?thesis using es(1,3) unfolding run_log_def by blast
qed

lemma run_log_Cons:
  assumes "run_log [c] None s s1" and "run_log cs r s1 s'"
  shows "run_log (c # cs) r s s'"
proof -
  from assms(1) obtain es1 where es1: "snd (world s1) = snd (world s) @ es1"
      "in_order (without_add_root (calls c)) None es1" "raises_last None es1"
      "add_root_calls es1 \<le> guards [c]"
    unfolding run_log_def by auto
  from assms(2) obtain es2 where es2: "snd (world s') = snd (world s1) @ es2"
      "in_order (without_add_root (concat (map calls cs))) r es2" "raises_last r es2"
      "add_root_calls es2 \<le> guards cs"
    unfolding run_log_def by auto
  have "snd (world s') = snd (world s) @ (es1 @ es2)" using es1(1) es2(1) by simp
  moreover have "in_order (without_add_root (concat (map calls (c # cs)))) r (es1 @ es2)"
    using es1(2) es2(2) by (simp add: in_order_append)
  moreover have "raises_last r (es1 @ es2)"
    using es1(3) es2(3) by (rule raises_last_append)
  moreover have "add_root_calls (es1 @ es2) \<le> guards (c # cs)"
    using es1(4) es2(4) guards_Cons [of c cs] by simp
  ultimately show ?thesis unfolding run_log_def by blast
qed

text \<open>The table \<open>calls\<close> is what \<open>exec\<close> does, statement after statement.\<close>

lemma run_run_log:
  assumes "name_ready (var_name s = ''Human-specific Gene Ontology'') cs"
    and "run (recording L) cs s = (r, s')"
  shows "run_log cs r s s'"
  using assms
proof (induction cs arbitrary: s)
  case Nil
  then show ?case by (simp add: run_log_Nil)
next
  case (Cons c cs)
  obtain r1 s1 where ex: "exec (recording L) c s = (r1, s1)"
    by (cases "exec (recording L) c s")
  have pre: "(\<exists>v. c = To_ndex v) \<longrightarrow> var_name s = ''Human-specific Gene Ontology''"
    using Cons.prems(1) by auto
  have step: "run_log [c] r1 s s1" using ex pre by (rule exec_run_log)
  show ?case
  proof (cases r1)
    case (Some e)
    with Cons.prems(2) ex have "r = Some e" "s' = s1" by simp_all
    with step Some show ?thesis by (simp add: run_log_stop)
  next
    case None
    with Cons.prems(2) ex have rest: "run (recording L) cs s1 = (r, s')" by simp
    have ready: "name_ready (var_name s1 = ''Human-specific Gene Ontology'') cs"
    proof (cases "c = Assign_name")
      case True
      with ex have "var_name s1 = ''Human-specific Gene Ontology''" by auto
      with Cons.prems(1) True show ?thesis by simp
    next
      case False
      have same: "var_name s1 = var_name s" using False ex by (rule exec_var_name)
      show ?thesis
      proof (cases "\<exists>v. c = To_ndex v")
        case True
        with Cons.prems(1) same show ?thesis by auto
      next
        case no: False
        with False Cons.prems(1) same show ?thesis by (simp add: name_ready_other)
      qed
    qed
    have "run_log cs r s1 s'" using ready rest by (rule Cons.IH)
    with step None show ?thesis by (simp add: run_log_Cons)
  qed
qed


lemma new_events_eq: "snd (world s') = snd (world s) @ es \<Longrightarrow> new_events s s' = es"
  by (simp add: new_events_def)

subsection \<open>The recording library does what the library does\<close>

text \<open>
  A run on \<open>recording L\<close> ends as the run on \<open>L\<close> ends, with the same error or none,
  the same variables and the same world, and a log beside it. What the log shows of the
  runs on \<open>recording L\<close> is therefore what every library \<open>L\<close> is called with.
\<close>

lemma with_log_fields [simp]:
  "world (with_log lg s) = (world s, lg)"
  "ndex_server (with_log lg s) = ndex_server s"
  "ndex_user (with_log lg s) = ndex_user s"
  "ndex_pass (with_log lg s) = ndex_pass s"
  "var_r (with_log lg s) = var_r s"
  "var_f (with_log lg s) = var_f s"
  "hierarchy (with_log lg s) = hierarchy s"
  "mapping (with_log lg s) = mapping s"
  "go_human (with_log lg s) = go_human s"
  "go_descriptions (with_log lg s) = go_descriptions s"
  "go_branches (with_log lg s) = go_branches s"
  "var_name (with_log lg s) = var_name s"
  "go_human_uniprot (with_log lg s) = go_human_uniprot s"
  "var_url (with_log lg s) = var_url s"
  "uniprot_2_df (with_log lg s) = uniprot_2_df s"
  "uniprot_2 (with_log lg s) = uniprot_2 s"
  "go_human_mapped (with_log lg s) = go_human_mapped s"
  by (simp_all add: with_log_def)

lemma ontology_of_with_log [simp]: "ontology_of (with_log lg s) v = ontology_of s v"
  by (cases v) simp_all

lemma to_delete_with_log [simp]: "to_delete (with_log lg s) t = to_delete s t"
  by (simp add: to_delete_def)

lemma helper_recording [simp]: "helper (recording L) t = helper L t"
  by (cases t) (auto simp: fun_eq_iff)

lemma call_f_recording [simp]: "call_f (recording L) fv t = call_f L fv t"
  by (cases fv) (auto simp: fun_eq_iff)

lemma with_log_updates:
  "(with_log lg s)\<lparr>world := (w, lg')\<rparr> = with_log lg' (s\<lparr>world := w\<rparr>)"
  "(with_log lg s)\<lparr>ndex_server := a\<rparr> = with_log lg (s\<lparr>ndex_server := a\<rparr>)"
  "(with_log lg s)\<lparr>ndex_user := a\<rparr> = with_log lg (s\<lparr>ndex_user := a\<rparr>)"
  "(with_log lg s)\<lparr>ndex_pass := a\<rparr> = with_log lg (s\<lparr>ndex_pass := a\<rparr>)"
  "(with_log lg s)\<lparr>var_r := b\<rparr> = with_log lg (s\<lparr>var_r := b\<rparr>)"
  "(with_log lg s)\<lparr>var_f := fv\<rparr> = with_log lg (s\<lparr>var_f := fv\<rparr>)"
  "(with_log lg s)\<lparr>hierarchy := tb\<rparr> = with_log lg (s\<lparr>hierarchy := tb\<rparr>)"
  "(with_log lg s)\<lparr>mapping := tb\<rparr> = with_log lg (s\<lparr>mapping := tb\<rparr>)"
  "(with_log lg s)\<lparr>go_human := ont\<rparr> = with_log lg (s\<lparr>go_human := ont\<rparr>)"
  "(with_log lg s)\<lparr>go_descriptions := tb\<rparr> = with_log lg (s\<lparr>go_descriptions := tb\<rparr>)"
  "(with_log lg s)\<lparr>go_branches := tb\<rparr> = with_log lg (s\<lparr>go_branches := tb\<rparr>)"
  "(with_log lg s)\<lparr>var_name := a\<rparr> = with_log lg (s\<lparr>var_name := a\<rparr>)"
  "(with_log lg s)\<lparr>go_human_uniprot := ont\<rparr> = with_log lg (s\<lparr>go_human_uniprot := ont\<rparr>)"
  "(with_log lg s)\<lparr>var_url := a\<rparr> = with_log lg (s\<lparr>var_url := a\<rparr>)"
  "(with_log lg s)\<lparr>uniprot_2_df := d\<rparr> = with_log lg (s\<lparr>uniprot_2_df := d\<rparr>)"
  "(with_log lg s)\<lparr>uniprot_2 := m\<rparr> = with_log lg (s\<lparr>uniprot_2 := m\<rparr>)"
  "(with_log lg s)\<lparr>go_human_mapped := g\<rparr> = with_log lg (s\<lparr>go_human_mapped := g\<rparr>)"
  by (simp_all add: with_log_def)

lemma exec_recording:
  "\<exists>lg'. exec (recording L) c (with_log lg s) = (fst (exec L c s), with_log lg' (snd (exec L c s)))"
  by (cases c)
    (auto simp: invoke_def logged_def noted_def stores with_log_updates split: prod.splits sum.splits)

lemma run_recording:
  "\<exists>lg'. run (recording L) cs (with_log lg s) = (fst (run L cs s), with_log lg' (snd (run L cs s)))"
proof (induction cs arbitrary: lg s)
  case Nil
  show ?case by auto
next
  case (Cons c cs)
  obtain lg1 where 1: "exec (recording L) c (with_log lg s) = (fst (exec L c s), with_log lg1 (snd (exec L c s)))"
    using exec_recording by blast
  show ?case
  proof (cases "fst (exec L c s)")
    case None
    obtain lg2 where "run (recording L) cs (with_log lg1 (snd (exec L c s))) =
      (fst (run L cs (snd (exec L c s))), with_log lg2 (snd (run L cs (snd (exec L c s)))))"
      using Cons.IH by blast
    with 1 None show ?thesis by (auto simp: split_beta)
  next
    case (Some e)
    with 1 show ?thesis by (auto simp: split_beta)
  qed
qed

subsection \<open>The calls of the notebook\<close>







lemma guards_query: "guards (cell_query t) = 0"
  by (simp add: guards_def cells)

subsection \<open>Runs on the small library\<close>






subsection \<open>The helper \<open>f\<close>\<close>

lemma astype_none: "None \<in> set (map conv x) \<Longrightarrow> astype conv x = Inl ValueError"
  by (induction x) (auto split: option.splits sum.splits)

lemma helper_entrez_one:
  assumes "astype_int L a = Some i"
  shows "helper L Entrez [a] = Inr (Scalar (str_int i))"
  using assms by (simp add: f_entrezgene_def)

lemma helper_entrez_many:
  assumes "length x \<noteq> 1" and "map (astype_int L) x = map Some ns"
  shows "helper L Entrez x = Inr (Listed (map str_int ns))"
proof -
  have a: "astype (astype_int L) x = Inr ns" using assms(2) by (simp add: astype_map)
  have "length ns = length x" using a by (rule astype_length)
  with a assms(1) show ?thesis by (simp add: f_entrezgene_def)
qed

lemma helper_entrez_raises:
  assumes "None \<in> set (map (astype_int L) x)"
  shows "helper L Entrez x = Inl ValueError"
  using astype_none [OF assms] by (simp add: f_entrezgene_def)

text \<open>
  C9. For every group \<open>x\<close> of hits, \<open>f\<close> returns the single value when the group has
  exactly one row and the list of all values otherwise. In the Entrez variant each value
  is first converted to an integer by \<open>astype(int)\<close> and then to the decimal text of that
  integer; when some value is no number the conversion raises \<open>ValueError\<close>, and so does
  \<open>f\<close>. The text of an integer is an optional minus sign followed by decimal digits and
  nothing else, and it denotes that integer, so an Entrez identifier that \<open>f\<close> returns has
  no fractional part.
\<close>

theorem f_single_value_or_list:
  "(\<forall>a. x = [a] \<longrightarrow> helper L Symbol x = Inr (Scalar a)) \<and>
   (length x \<noteq> 1 \<longrightarrow> helper L Symbol x = Inr (Listed x)) \<and>
   (\<forall>a i. x = [a] \<and> astype_int L a = Some i \<longrightarrow> helper L Entrez x = Inr (Scalar (str_int i))) \<and>
   (\<forall>ns. length x \<noteq> 1 \<and> map (astype_int L) x = map Some ns \<longrightarrow>
      helper L Entrez x = Inr (Listed (map str_int ns))) \<and>
   (None \<in> set (map (astype_int L) x) \<longrightarrow> helper L Entrez x = Inl ValueError) \<and>
   (\<forall>i. integer_literal (str_int i) \<and> literal_value (str_int i) = i)"
proof -
  have "\<forall>a. x = [a] \<longrightarrow> helper L Symbol x = Inr (Scalar a)"
    by (simp add: f_symbol_def)
  moreover have "length x \<noteq> 1 \<longrightarrow> helper L Symbol x = Inr (Listed x)"
    by (simp add: f_symbol_def)
  moreover have "\<forall>a i. x = [a] \<and> astype_int L a = Some i \<longrightarrow>
      helper L Entrez x = Inr (Scalar (str_int i))"
    using helper_entrez_one by blast
  moreover have "\<forall>ns. length x \<noteq> 1 \<and> map (astype_int L) x = map Some ns \<longrightarrow>
      helper L Entrez x = Inr (Listed (map str_int ns))"
    using helper_entrez_many by blast
  moreover have "None \<in> set (map (astype_int L) x) \<longrightarrow> helper L Entrez x = Inl ValueError"
    using helper_entrez_raises by blast
  moreover have "\<forall>i. integer_literal (str_int i) \<and> literal_value (str_int i) = i"
    using str_int_literal literal_value_str_int by blast
  ultimately show ?thesis by blast
qed

lemma str_int_examples:
  "str_int 7157 = ''7157''" "str_int 3043 = ''3043''" "str_int 3045 = ''3045''"
  by (simp_all add: str_int_def str_nat.simps digit_char_def)

text \<open>
  The helpers on groups of the small library: one row, two rows, and a row that is no
  number.
\<close>

theorem f_single_value_or_list_witness:
  "helper small_library Symbol [''TP53''] = Inr (Scalar ''TP53'') \<and>
   helper small_library Symbol [''HBB'', ''HBD''] = Inr (Listed [''HBB'', ''HBD'']) \<and>
   helper small_library Entrez [''7157''] = Inr (Scalar ''7157'') \<and>
   helper small_library Entrez [''3043'', ''3045''] = Inr (Listed [''3043'', ''3045'']) \<and>
   helper small_library Entrez [''3043'', ''n/a''] = Inl ValueError \<and>
   integer_literal ''3043'' \<and> literal_value ''3043'' = 3043"
proof -
  have "helper small_library Symbol [''TP53''] = Inr (Scalar ''TP53'')"
    using f_single_value_or_list [of "[''TP53'']" small_library] by blast
  moreover have "helper small_library Symbol [''HBB'', ''HBD''] = Inr (Listed [''HBB'', ''HBD''])"
    using f_single_value_or_list [of "[''HBB'', ''HBD'']" small_library] by simp
  moreover have "helper small_library Entrez [''7157''] = Inr (Scalar ''7157'')"
  proof -
    have "astype_int small_library ''7157'' = Some 7157"
      by (simp add: small_library_def toy_astype_int_def)
    with f_single_value_or_list [of "[''7157'']" small_library]
    have "helper small_library Entrez [''7157''] = Inr (Scalar (str_int 7157))" by blast
    then show ?thesis by (simp only: str_int_examples)
  qed
  moreover have "helper small_library Entrez [''3043'', ''3045''] = Inr (Listed [''3043'', ''3045''])"
  proof -
    have "length [''3043'', ''3045''] \<noteq> 1 \<and>
        map (astype_int small_library) [''3043'', ''3045''] = map Some [3043, 3045]"
      by (simp add: small_library_def toy_astype_int_def)
    with f_single_value_or_list [of "[''3043'', ''3045'']" small_library]
    have "helper small_library Entrez [''3043'', ''3045''] = Inr (Listed (map str_int [3043, 3045]))"
      by blast
    then show ?thesis by (simp add: str_int_examples)
  qed
  moreover have "helper small_library Entrez [''3043'', ''n/a''] = Inl ValueError"
  proof -
    have "None \<in> set (map (astype_int small_library) [''3043'', ''n/a''])"
      by (simp add: small_library_def toy_astype_int_def)
    with f_single_value_or_list [of "[''3043'', ''n/a'']" small_library] show ?thesis by blast
  qed
  moreover have "integer_literal ''3043'' \<and> literal_value ''3043'' = 3043"
  proof -
    from f_single_value_or_list [of "[]" small_library]
    have "integer_literal (str_int 3043) \<and> literal_value (str_int 3043) = 3043" by blast
    then show ?thesis by (simp only: str_int_examples)
  qed
  ultimately show ?thesis by blast
qed

subsection \<open>Failures\<close>






subsection \<open>The order of the calls\<close>




subsection \<open>The order of the stages\<close>





subsection \<open>Who maps the identifiers\<close>

lemma call_f_helper: "call_f L (Helper t) t = helper L t"
  by (rule ext) simp

lemma query_then_delete_rename:
  assumes "run M (cell_query t @ [Delete_unmapped t, Rename t]) u = (None, u')"
  shows "\<exists>df w1 rows ont1 w2 ont2.
     querymany M (genes (go_human u)) ''uniprot'' (field t) ''human'' (world u) = (Inr df, w1) \<and>
     dropna df = Inr rows \<and>
     apply_f (helper M t) (groupby rows) = Inr (uniprot_2 u' t) \<and>
     delete M (set (genes (go_human u)) - set (keys (uniprot_2 u' t))) (go_human u) w1 = (Inr ont1, w2) \<and>
     rename M (to_dict (uniprot_2 u' t)) ont1 w2 = (Inr ont2, world u') \<and>
     go_human_mapped u' t = ont2"
  using assms
  by (auto simp: cell_query_def invoke_def call_f_helper to_delete_def set_go_human_mapped_def
      split: prod.splits sum.splits option.splits)

lemma no_add_root: "add_root_calls es = 0 \<Longrightarrow> without_add_root (map called es) = map called es"
  by (induction es) (auto simp: add_root_calls_def without_add_root_def split: if_splits)

lemma query_then_delete_rename_log:
  assumes "run (recording L) (cell_query t @ [Delete_unmapped t, Rename t]) s = (r, s')"
  shows "\<exists>k\<le>3. map called (new_events s s') =
       take k [(Library Mygene ''querymany'', [''uniprot'', field t, ''human'']),
               (Library Ddot ''delete'', []), (Library Ddot ''rename'', [])] \<and>
     (r = None \<longrightarrow> k = 3)"
proof -
  let ?expected = "[(Library Mygene ''querymany'', [''uniprot'', field t, ''human'']),
      (Library Ddot ''delete'', []), (Library Ddot ''rename'', [])]"
  have expected: "without_add_root (concat (map calls (cell_query t @ [Delete_unmapped t, Rename t]))) =
      ?expected"
    by (simp add: cell_query_def without_add_root_def)
  have no_guard: "guards (cell_query t @ [Delete_unmapped t, Rename t]) = 0"
    by (simp add: guards_def cell_query_def)
  have "name_ready (var_name s = ''Human-specific Gene Ontology'')
      (cell_query t @ [Delete_unmapped t, Rename t])"
    by (simp add: cell_query_def)
  then have "run_log (cell_query t @ [Delete_unmapped t, Rename t]) r s s'"
    using assms by (rule run_run_log)
  then obtain es where es: "snd (world s') = snd (world s) @ es"
      "in_order ?expected r es" "add_root_calls es = 0"
    unfolding run_log_def expected no_guard by auto
  from es(2) obtain k where k: "k \<le> length ?expected"
      "without_add_root (map called es) = take k ?expected" "r = None \<longrightarrow> k = length ?expected"
    unfolding in_order_def by blast
  from es(3) have "without_add_root (map called es) = map called es" by (rule no_add_root)
  with k have "k \<le> 3 \<and> map called es = take k ?expected \<and> (r = None \<longrightarrow> k = 3)" by simp
  then show ?thesis unfolding new_events_eq [OF es(1)] by blast
qed

text \<open>
  C2, as the claim states it, fails: the statements of cell 12 build the mapping from
  UniProt identifiers to symbols with one call of \<open>mygene\<close>, functions of \<open>pandas\<close> and the
  notebook's own \<open>f\<close>. With a \<open>ddot\<close> of which every function raises, they run without
  error, call nothing but \<open>querymany\<close>, and produce the whole mapping.
\<close>

theorem mapping_made_without_ddot:
  "set (cell_query Symbol) \<subseteq> set program \<and>
   fst (exec library_without_ddot (Delete_unmapped Symbol) with_toy_ontology) =
     Some (Library_error ''ddot is not available'') \<and>
   fst (run (recording library_without_ddot) (cell_query Symbol) (with_log [] with_toy_ontology)) = None \<and>
   uniprot_2 (snd (run (recording library_without_ddot) (cell_query Symbol)
       (with_log [] with_toy_ontology))) Symbol =
     [(''P1'', Scalar ''TP53''), (''P2'', Listed [''HBB'', ''HBD''])] \<and>
   map called (snd (world (snd (run (recording library_without_ddot) (cell_query Symbol)
       (with_log [] with_toy_ontology))))) =
     [(Library Mygene ''querymany'', [''uniprot'', ''symbol'', ''human''])]"
  by (simp add: library_without_ddot_def ddot_down_def with_toy_ontology_def small_simps cells
      with_log_def logged_def noted_def recording_def)

text \<open>
  C2, amended. The mapping of gene identifiers is obtained from \<open>mygene\<close> and shaped by
  \<open>pandas\<close> and by the function \<open>f\<close> that the notebook defines; \<open>ddot\<close> is then handed the
  mapping. In every run of a query cell and the two statements after it, the calls
  recorded (all but those of \<open>pandas\<close>, which are functions of the theory) are \<open>querymany\<close>
  of \<open>mygene\<close>, then \<open>delete\<close> and \<open>rename\<close> of \<open>ddot\<close>, and no other.
  When they have run without error, \<open>querymany\<close> has returned a data frame; the mapping is
  what \<open>apply\<close> returns for \<open>f\<close> on the groups of its rows without NaN; \<open>delete\<close> was called
  on \<open>go_human\<close> with the genes that are no key of the mapping; \<open>rename\<close> was called on
  what \<open>delete\<close> returned, with the dictionary of the mapping, and what it returned is the
  ontology of the variant. What \<open>delete\<close> and \<open>rename\<close> do with their arguments is not in
  the notebook.
\<close>

theorem mapping_made_by_mygene_and_f:
  "(\<forall>r s'. run (recording L) (cell_query t @ [Delete_unmapped t, Rename t]) s = (r, s') \<longrightarrow>
      (\<exists>k\<le>3. map called (new_events s s') =
          take k [(Library Mygene ''querymany'', [''uniprot'', field t, ''human'']),
                  (Library Ddot ''delete'', []), (Library Ddot ''rename'', [])] \<and>
        (r = None \<longrightarrow> k = 3))) \<and>
   (\<forall>u'. run M (cell_query t @ [Delete_unmapped t, Rename t]) u = (None, u') \<longrightarrow>
      (\<exists>df w1 rows ont1 w2 ont2.
         querymany M (genes (go_human u)) ''uniprot'' (field t) ''human'' (world u) = (Inr df, w1) \<and>
         dropna df = Inr rows \<and>
         apply_f (helper M t) (groupby rows) = Inr (uniprot_2 u' t) \<and>
         delete M (set (genes (go_human u)) - set (keys (uniprot_2 u' t))) (go_human u) w1 =
           (Inr ont1, w2) \<and>
         rename M (to_dict (uniprot_2 u' t)) ont1 w2 = (Inr ont2, world u') \<and>
         go_human_mapped u' t = ont2))"
  using query_then_delete_rename_log query_then_delete_rename by blast

lemma small_query_delete_rename:
  "fst (run small_library (cell_query Entrez @ [Delete_unmapped Entrez, Rename Entrez])
      with_toy_ontology) = None \<and>
   uniprot_2 (snd (run small_library (cell_query Entrez @ [Delete_unmapped Entrez, Rename Entrez])
      with_toy_ontology)) Entrez = [(''P1'', Scalar ''7157''), (''P2'', Listed [''3043'', ''3045''])] \<and>
   genes (go_human_mapped (snd (run small_library
      (cell_query Entrez @ [Delete_unmapped Entrez, Rename Entrez]) with_toy_ontology)) Entrez) =
     [''7157'', ''3043'', ''3045'']"
  by (simp add: with_toy_ontology_def small_simps cells str_int_examples)

text \<open>The query cell for the Entrez identifiers and the two statements after it, on the small library.\<close>

theorem mapping_made_by_mygene_and_f_witness:
  "map called (snd (world (snd (run (recording small_library)
       (cell_query Entrez @ [Delete_unmapped Entrez, Rename Entrez])
       (with_log [] with_toy_ontology))))) =
     [(Library Mygene ''querymany'', [''uniprot'', ''entrezgene'', ''human'']),
      (Library Ddot ''delete'', []), (Library Ddot ''rename'', [])] \<and>
   (\<exists>df w1 rows ont1 w2 ont2 w3.
      querymany small_library (genes (go_human with_toy_ontology)) ''uniprot'' ''entrezgene'' ''human''
        (world with_toy_ontology) = (Inr df, w1) \<and>
      dropna df = Inr rows \<and>
      apply_f (helper small_library Entrez) (groupby rows) =
        Inr [(''P1'', Scalar ''7157''), (''P2'', Listed [''3043'', ''3045''])] \<and>
      delete small_library
        (set (genes (go_human with_toy_ontology)) -
         set (keys [(''P1'', Scalar ''7157''), (''P2'', Listed [''3043'', ''3045''])]))
        (go_human with_toy_ontology) w1 = (Inr ont1, w2) \<and>
      rename small_library (to_dict [(''P1'', Scalar ''7157''), (''P2'', Listed [''3043'', ''3045''])])
        ont1 w2 = (Inr ont2, w3) \<and>
      genes ont2 = [''7157'', ''3043'', ''3045''])"
proof -
  define cs where "cs = cell_query Entrez @ [Delete_unmapped Entrez, Rename Entrez]"
  define u' where "u' = snd (run small_library cs with_toy_ontology)"
  define s' where "s' = snd (run (recording small_library) cs (with_log [] with_toy_ontology))"
  have ok: "fst (run small_library cs with_toy_ontology) = None"
    and mapping: "uniprot_2 u' Entrez = [(''P1'', Scalar ''7157''), (''P2'', Listed [''3043'', ''3045''])]"
    and genes: "genes (go_human_mapped u' Entrez) = [''7157'', ''3043'', ''3045'']"
    unfolding cs_def u'_def using small_query_delete_rename by blast+
  have plain: "run small_library cs with_toy_ontology = (None, u')"
    using ok by (simp add: u'_def prod_eq_iff)
  obtain lg' where "run (recording small_library) cs (with_log [] with_toy_ontology) =
      (fst (run small_library cs with_toy_ontology), with_log lg' (snd (run small_library cs with_toy_ontology)))"
    using run_recording by blast
  with ok have rec: "run (recording small_library) cs (with_log [] with_toy_ontology) = (None, s')"
    by (simp add: s'_def)
  note claim = mapping_made_by_mygene_and_f [of small_library Entrez "with_log [] with_toy_ontology"
      small_library with_toy_ontology, folded cs_def]
  from claim rec obtain k where "map called (new_events (with_log [] with_toy_ontology) s') =
      take k [(Library Mygene ''querymany'', [''uniprot'', field Entrez, ''human'']),
              (Library Ddot ''delete'', []), (Library Ddot ''rename'', [])]" "k = 3"
    by blast
  then have log: "map called (snd (world s')) =
     [(Library Mygene ''querymany'', [''uniprot'', ''entrezgene'', ''human'']),
      (Library Ddot ''delete'', []), (Library Ddot ''rename'', [])]"
    by (simp add: new_events_def)
  from claim plain obtain df w1 rows ont1 w2 ont2 where
    "querymany small_library (genes (go_human with_toy_ontology)) ''uniprot'' (field Entrez) ''human''
        (world with_toy_ontology) = (Inr df, w1)"
    "dropna df = Inr rows"
    "apply_f (helper small_library Entrez) (groupby rows) = Inr (uniprot_2 u' Entrez)"
    "delete small_library (set (genes (go_human with_toy_ontology)) - set (keys (uniprot_2 u' Entrez)))
        (go_human with_toy_ontology) w1 = (Inr ont1, w2)"
    "rename small_library (to_dict (uniprot_2 u' Entrez)) ont1 w2 = (Inr ont2, world u')"
    "go_human_mapped u' Entrez = ont2"
    by blast
  with mapping genes have "\<exists>df w1 rows ont1 w2 ont2 w3.
      querymany small_library (genes (go_human with_toy_ontology)) ''uniprot'' ''entrezgene'' ''human''
        (world with_toy_ontology) = (Inr df, w1) \<and>
      dropna df = Inr rows \<and>
      apply_f (helper small_library Entrez) (groupby rows) =
        Inr [(''P1'', Scalar ''7157''), (''P2'', Listed [''3043'', ''3045''])] \<and>
      delete small_library
        (set (genes (go_human with_toy_ontology)) -
         set (keys [(''P1'', Scalar ''7157''), (''P2'', Listed [''3043'', ''3045''])]))
        (go_human with_toy_ontology) w1 = (Inr ont1, w2) \<and>
      rename small_library (to_dict [(''P1'', Scalar ''7157''), (''P2'', Listed [''3043'', ''3045''])])
        ont1 w2 = (Inr ont2, w3) \<and>
      genes ont2 = [''7157'', ''3043'', ''3045'']"
    by (simp only: field.simps) blast
  with log show ?thesis unfolding s'_def cs_def by blast
qed

subsection \<open>What the notebook defines itself\<close>

text \<open>
  C3, as the claim states it, fails: cells 12 and 14 each define a function \<open>f\<close>; the
  definition binds the variable \<open>f\<close>, and what \<open>f\<close> returns depends on a test it makes
  itself (one row or several).
\<close>

theorem notebook_defines_f:
  "Def_f Symbol \<in> set program \<and> Def_f Entrez \<in> set program \<and>
   form_of (Def_f Symbol) = Function_definition \<and>
   var_f (snd (exec small_library (Def_f Symbol) fresh)) = Helper Symbol \<and>
   call_f small_library (Helper Symbol) Symbol [''HBB''] = Inr (Scalar ''HBB'') \<and>
   call_f small_library (Helper Symbol) Symbol [''HBB'', ''HBD''] = Inr (Listed [''HBB'', ''HBD''])"
  by (simp add: cells f_symbol_def)

text \<open>
  C3, amended. Apart from its eight imports, its three assignments of string literals,
  one displayed expression, the \<open>if\<close> that guards \<open>add_root\<close>, the shell escape and the
  two definitions of \<open>f\<close>, every statement of the notebook is a call of a library
  function, a \<open>with\<close> block on a file, or a \<open>print\<close>. The two definitions of \<open>f\<close> are
  the only functions the notebook defines; \<open>f\<close> is \<open>f_symbol\<close>, then \<open>f_entrezgene\<close>.
\<close>

theorem statement_forms:
  "filter (\<lambda>c. form_of c \<notin> {Library_call, File_block, Print_statement}) program =
     [Import Requests, Import Gzip, Import Pandas, Import Networkx, Import Sys, Import Ddot,
      From_import Ddot ''Ontology'', Assign_ndex_server, Assign_ndex_account, Display_go_human,
      Guard_add_root, Pip_install_mygene, Import Mygene, Assign_name, Def_f Symbol, Def_f Entrez] \<and>
   filter (\<lambda>c. form_of c = Function_definition) program = [Def_f Symbol, Def_f Entrez] \<and>
   (\<forall>L t x. call_f L (Helper t) t x = helper L t x) \<and>
   (\<forall>L x. helper L Symbol x = Inr (f_symbol x)) \<and>
   (\<forall>L x. helper L Entrez x = f_entrezgene (astype_int L) x)"
  by (simp add: cells)

end
